theory Spec2Isabelle
  imports Main
begin

section \<open>JavaScript values\<close>

text \<open>
  The values the API client handles: what \<^verbatim>\<open>JSON.parse\<close> produces, plus
  \<^verbatim>\<open>undefined\<close> and \<^verbatim>\<open>NaN\<close>. Numbers are the integers (status codes,
  error codes, offsets, totals, ids), exact at any size, where JavaScript has doubles; an
  object is the list of its own properties.
\<close>

datatype jsval =
    JUndefined
  | JNull
  | JBool bool
  | JNum int
  | JNaN
  | JStr string
  | JArr "jsval list"
  | JObj "(string \<times> jsval) list"

text \<open>
  Errors by where they are created: \<open>Error\<close> is \<^verbatim>\<open>new Error(message)\<close> of this module,
  \<open>FetchError\<close> is whatever \<^verbatim>\<open>fetch\<close> rejects with, \<open>SyntaxError\<close> comes from parsing a
  body that is not JSON, \<open>TypeError\<close> from reading a property of \<^verbatim>\<open>undefined\<close> or
  \<^verbatim>\<open>null\<close> and from reading a body twice.
\<close>

datatype error =
    Error string
  | FetchError string
  | SyntaxError string
  | TypeError string

text \<open>An awaited call returns, throws, or never settles.\<close>

datatype 'a completion = Return 'a | Throw error | Pending

text \<open>The body of an HTTP reply, by what \<^verbatim>\<open>JSON.parse\<close> makes of its text.\<close>

datatype body = NoBody | NotJson string | Json jsval

record reply =
  reply_status :: int
  reply_body :: body

record response =
  status :: int
  body :: body
  bodyUsed :: bool

record init = req_method :: string  req_body :: "jsval option"

record toast =
  toast_type :: string
  title :: string
  description :: string
  time :: nat

datatype log =
    LogError error
  | LogErrorText string
  | LogDebug string jsval
  | LogDebugText string
  | LogForm "(string \<times> jsval) list"

text \<open>
  What a call leaves behind: the notifications it raised, the console lines, the requests
  handed to \<^verbatim>\<open>fetch\<close>, and the table of timers (\<open>timers\<close> holds the ids still
  pending, \<open>delays\<close> the delay of every timer ever set, \<open>next_timer\<close> the next id,
  \<open>fired\<close> the ids of the timers whose callback has run).
\<close>

record world =
  toasts :: "toast list"
  console :: "log list"
  fetched :: "(string \<times> init) list"
  timers :: "nat list"
  delays :: "nat list"
  next_timer :: nat
  fired :: "nat list"

type_synonym 'a prog = "world \<Rightarrow> 'a completion \<times> world"

definition return :: "'a \<Rightarrow> 'a prog" where
  "return x = (\<lambda>w. (Return x, w))"

definition throw :: "error \<Rightarrow> 'a prog" where
  "throw e = (\<lambda>w. (Throw e, w))"

text \<open>\<^verbatim>\<open>let x = await m; f(x)\<close>: a rejection of \<open>m\<close> is thrown at the await.\<close>

definition await :: "'a prog \<Rightarrow> ('a \<Rightarrow> 'b prog) \<Rightarrow> 'b prog" where
  "await m f = (\<lambda>w. case m w of
      (Return x, w') \<Rightarrow> f x w'
    | (Throw e, w') \<Rightarrow> (Throw e, w')
    | (Pending, w') \<Rightarrow> (Pending, w'))"

text \<open>\<^verbatim>\<open>try { m } catch (e) { h(e) }\<close>\<close>

definition try_catch :: "'a prog \<Rightarrow> (error \<Rightarrow> 'a prog) \<Rightarrow> 'a prog" where
  "try_catch m h = (\<lambda>w. case m w of
      (Throw e, w') \<Rightarrow> h e w'
    | (Return x, w') \<Rightarrow> (Return x, w')
    | (Pending, w') \<Rightarrow> (Pending, w'))"

definition toast_js :: "toast \<Rightarrow> unit prog" where
  "toast_js t = (\<lambda>w. (Return (), w\<lparr>toasts := toasts w @ [t]\<rparr>))"

definition console_log :: "log \<Rightarrow> unit prog" where
  "console_log l = (\<lambda>w. (Return (), w\<lparr>console := console w @ [l]\<rparr>))"

subsection \<open>Property access, truthiness, string conversion\<close>

text \<open>
  \<^verbatim>\<open>v[k]\<close> for the keys this module reads (none of them is \<^verbatim>\<open>length\<close> or a property
  inherited from a prototype): a \<^verbatim>\<open>TypeError\<close> on \<^verbatim>\<open>undefined\<close> and \<^verbatim>\<open>null\<close>,
  the property or \<^verbatim>\<open>undefined\<close> on an object, \<^verbatim>\<open>undefined\<close> on everything else.
\<close>

fun get_prop :: "jsval \<Rightarrow> string \<Rightarrow> jsval prog" where
  "get_prop JUndefined k = throw (TypeError ''Cannot read properties of undefined'')"
| "get_prop JNull k = throw (TypeError ''Cannot read properties of null'')"
| "get_prop (JObj kvs) k = return (case map_of kvs k of None \<Rightarrow> JUndefined | Some v \<Rightarrow> v)"
| "get_prop v k = return JUndefined"

fun truthy :: "jsval \<Rightarrow> bool" where
  "truthy JUndefined = False"
| "truthy JNull = False"
| "truthy (JBool b) = b"
| "truthy (JNum n) = (n \<noteq> 0)"
| "truthy JNaN = False"
| "truthy (JStr s) = (s \<noteq> [])"
| "truthy (JArr xs) = True"
| "truthy (JObj kvs) = True"

text \<open>\<^verbatim>\<open>a || b\<close>\<close>

definition js_or :: "jsval \<Rightarrow> jsval \<Rightarrow> jsval" where
  "js_or a b = (if truthy a then a else b)"

subsection \<open>Responses\<close>

text \<open>The \<^verbatim>\<open>Response\<close> object \<^verbatim>\<open>fetch\<close> resolves with: its body is not read yet.\<close>

definition Response :: "reply \<Rightarrow> response" where
  "Response r = \<lparr>status = reply_status r, body = reply_body r, bodyUsed = False\<rparr>"

text \<open>\<^verbatim>\<open>response.clone()\<close>: a second object on the same body; refused once the body is read.\<close>

definition clone :: "response \<Rightarrow> response prog" where
  "clone r = (if bodyUsed r then throw (TypeError ''Response body is already used'') else return r)"

text \<open>
  \<^verbatim>\<open>await response.json()\<close>: the parsed body, together with the object it was read from,
  now used. A missing body and a body that is not JSON reject with a \<^verbatim>\<open>SyntaxError\<close>.
  Reading a body that has arrived is taken to complete.
\<close>

definition json :: "response \<Rightarrow> (jsval \<times> response) prog" where
  "json r =
     (if bodyUsed r then throw (TypeError ''body stream already read'')
      else case body r of
          NoBody \<Rightarrow> throw (SyntaxError ''Unexpected end of JSON input'')
        | NotJson s \<Rightarrow> throw (SyntaxError ''Unexpected token'')
        | Json v \<Rightarrow> return (v, r\<lparr>bodyUsed := True\<rparr>))"

section \<open>The timeout guard\<close>

text \<open>
  A promise either never settles or settles at a time (in milliseconds after the call) with
  a rejection or a value. \<open>net\<close>, a parameter of every function below, is what the network
  does with the one request the call sends.
\<close>

datatype 'a promise = Never | Settles nat "error + 'a"

datatype fetch_behaviour = NoAnswer | Answers nat "string + reply"

definition fetch_js :: "fetch_behaviour \<Rightarrow> string \<Rightarrow> init \<Rightarrow> world \<Rightarrow> response promise \<times> world" where
  "fetch_js net url i w =
     (case net of
        NoAnswer \<Rightarrow> Never
      | Answers t (Inl reason) \<Rightarrow> Settles t (Inl (FetchError reason))
      | Answers t (Inr r) \<Rightarrow> Settles t (Inr (Response r)),
      w\<lparr>fetched := fetched w @ [(url, i)]\<rparr>)"

definition setTimeout :: "nat \<Rightarrow> world \<Rightarrow> nat \<times> world" where
  "setTimeout ms w =
     (next_timer w,
      w\<lparr>timers := next_timer w # timers w, delays := delays w @ [ms],
        next_timer := Suc (next_timer w)\<rparr>)"

definition clearTimeout :: "nat \<Rightarrow> world \<Rightarrow> world" where
  "clearTimeout tid w = w\<lparr>timers := removeAll tid (timers w)\<rparr>"

text \<open>A pending timer comes due: it leaves the table and its callback runs.\<close>

definition fire :: "nat \<Rightarrow> world \<Rightarrow> world" where
  "fire tid w = w\<lparr>timers := removeAll tid (timers w), fired := fired w @ [tid]\<rparr>"

text \<open>
  The \<^verbatim>\<open>resolve\<close> and \<^verbatim>\<open>reject\<close> of \<^verbatim>\<open>new Promise\<close>: the first call settles the
  promise, later calls are ignored.
\<close>

definition settle :: "(error + 'a) \<Rightarrow> (error + 'a) option \<Rightarrow> (error + 'a) option" where
  "settle v p = (case p of None \<Rightarrow> Some v | Some u \<Rightarrow> Some u)"

text \<open>The three callbacks of \<^verbatim>\<open>timeoutPromise\<close>.\<close>

definition on_timeout :: "world \<times> (error + 'a) option \<Rightarrow> world \<times> (error + 'a) option" where
  "on_timeout s = (fst s, settle (Inl (Error ''promise timeout'')) (snd s))"

definition on_fulfilled :: "nat \<Rightarrow> 'a \<Rightarrow> world \<times> (error + 'a) option \<Rightarrow> world \<times> (error + 'a) option" where
  "on_fulfilled timeoutId res s = (clearTimeout timeoutId (fst s), settle (Inr res) (snd s))"

definition on_rejected :: "nat \<Rightarrow> error \<Rightarrow> world \<times> (error + 'a) option \<Rightarrow> world \<times> (error + 'a) option" where
  "on_rejected timeoutId err s = (clearTimeout timeoutId (fst s), settle (Inl err) (snd s))"

text \<open>
  The event loop delivers two events to a call: the timer coming due and the wrapped
  promise settling. A timer that is no longer in the table, because \<^verbatim>\<open>clearTimeout\<close>
  took it out, does not fire.
\<close>

datatype 'a event = TimerDue | PromiseSettled "error + 'a"

definition deliver :: "nat \<Rightarrow> world \<times> (error + 'a) option \<Rightarrow> 'a event \<Rightarrow> world \<times> (error + 'a) option" where
  "deliver timeoutId s ev =
     (case ev of
        TimerDue \<Rightarrow>
          if timeoutId \<in> set (timers (fst s))
          then on_timeout (fire timeoutId (fst s), snd s)
          else s
      | PromiseSettled (Inr res) \<Rightarrow> on_fulfilled timeoutId res s
      | PromiseSettled (Inl err) \<Rightarrow> on_rejected timeoutId err s)"

text \<open>
  The order of the two events: the promise first when it settles before the delay has
  passed, the timer first when it settles later. \<^verbatim>\<open>fetch\<close> is started before the timer
  is set, so when both come due at the same time the promise is first.
\<close>

definition schedule :: "nat \<Rightarrow> 'a promise \<Rightarrow> 'a event list" where
  "schedule ms promise =
     (case promise of
        Never \<Rightarrow> [TimerDue]
      | Settles t out \<Rightarrow>
          if t \<le> ms then [PromiseSettled out, TimerDue] else [TimerDue, PromiseSettled out])"

text \<open>
  \<^verbatim>\<open>await timeoutPromise(ms, promise)\<close>: set the timer, let both events happen, and
  complete with what the new promise was settled with.
\<close>

definition timeoutPromise :: "nat \<Rightarrow> 'a promise \<Rightarrow> 'a prog" where
  "timeoutPromise ms promise = (\<lambda>w.
     let (timeoutId, w1) = setTimeout ms w;
         (w2, p) = foldl (deliver timeoutId) (w1, None) (schedule ms promise)
     in (case p of
           None \<Rightarrow> Pending
         | Some (Inl e) \<Rightarrow> Throw e
         | Some (Inr res) \<Rightarrow> Return res,
         w2))"

section \<open>The guarded executor\<close>

definition wrol_toast :: toast where
  "wrol_toast =
     \<lparr>toast_type = ''error'', title = ''WROL Mode is enabled!'',
      description = ''This functionality is disabled while WROL Mode is enabled!'',
      time = 5000\<rparr>"

text \<open>
  \<^verbatim>\<open>apiCall(url, method, body, ms = 60_000)\<close>. An argument that is left out is
  \<open>JUndefined\<close> for \<open>body\<close> and \<open>None\<close> for \<open>ms\<close>. The request carries the value of
  \<open>body\<close>; its serialisation by \<^verbatim>\<open>JSON.stringify\<close> is not modelled.
\<close>

definition apiCall :: "fetch_behaviour \<Rightarrow> string \<Rightarrow> string \<Rightarrow> jsval \<Rightarrow> nat option \<Rightarrow> response prog" where
  "apiCall net url meth body_arg ms_arg = (\<lambda>w.
     let ms = (case ms_arg of None \<Rightarrow> 60000 | Some m \<Rightarrow> m);
         i = \<lparr>req_method = meth, req_body = (if body_arg \<noteq> JUndefined then Some body_arg else None)\<rparr>;
         (promise, w1) = fetch_js net url i w
     in try_catch
          (await (timeoutPromise ms promise) (\<lambda>response.
             if 200 \<le> status response \<and> status response < 300 then return response
             else
               await (clone response) (\<lambda>copy.
               await (json copy) (\<lambda>(data, copy').
               await (get_prop data ''code'') (\<lambda>code.
                 if status response = 403 \<and> code = JNum 17
                 then await (toast_js wrol_toast) (\<lambda>_. return response)
                 else return response)))))
          (\<lambda>e. await (console_log (LogError e)) (\<lambda>_. throw e))
          w1)"

text \<open>The convenience functions.\<close>

definition apiGet :: "fetch_behaviour \<Rightarrow> string \<Rightarrow> response prog" where
  "apiGet net url = apiCall net url ''GET'' JUndefined None"

definition apiDelete :: "fetch_behaviour \<Rightarrow> string \<Rightarrow> response prog" where
  "apiDelete net url = apiCall net url ''DELETE'' JUndefined None"

definition apiPost :: "fetch_behaviour \<Rightarrow> string \<Rightarrow> jsval \<Rightarrow> response prog" where
  "apiPost net url body_arg = apiCall net url ''POST'' body_arg None"

definition apiPut :: "fetch_behaviour \<Rightarrow> string \<Rightarrow> jsval \<Rightarrow> response prog" where
  "apiPut net url body_arg = apiCall net url ''PUT'' body_arg None"

definition apiPatch :: "fetch_behaviour \<Rightarrow> string \<Rightarrow> jsval \<Rightarrow> response prog" where
  "apiPatch net url body_arg = apiCall net url ''PATCH'' body_arg None"


section \<open>Strings and numbers of request bodies and URLs\<close>

text \<open>
  Decimal digits of a natural number, as \<^verbatim>\<open>String(n)\<close> prints them (every digit, also
  from \<open>10^21\<close> on, where JavaScript turns to the exponent form).
\<close>

fun digits :: "nat \<Rightarrow> string" where
  "digits n = (if n < 10 then [''0123456789'' ! n] else digits (n div 10) @ [''0123456789'' ! (n mod 10)])"

definition show_int :: "int \<Rightarrow> string" where
  "show_int n = (if n < 0 then CHR ''-'' # digits (nat (- n)) else digits (nat n))"

text \<open>
  \<^verbatim>\<open>String(v)\<close>, which template literals and \<^verbatim>\<open>parseInt\<close> apply to their argument.
  An array prints its elements separated by commas, \<^verbatim>\<open>null\<close> and \<^verbatim>\<open>undefined\<close>
  elements as nothing.
\<close>

fun js_to_string :: "jsval \<Rightarrow> string" and js_join :: "jsval list \<Rightarrow> string" where
  "js_to_string JUndefined = ''undefined''"
| "js_to_string JNull = ''null''"
| "js_to_string (JBool b) = (if b then ''true'' else ''false'')"
| "js_to_string (JNum n) = show_int n"
| "js_to_string JNaN = ''NaN''"
| "js_to_string (JStr s) = s"
| "js_to_string (JArr xs) = js_join xs"
| "js_to_string (JObj kvs) = ''[object Object]''"
| "js_join [] = []"
| "js_join [x] = (if x = JUndefined \<or> x = JNull then [] else js_to_string x)"
| "js_join (x # y # ys) =
     (if x = JUndefined \<or> x = JNull then [] else js_to_string x) @ '','' @ js_join (y # ys)"

definition is_space :: "char \<Rightarrow> bool" where
  "is_space ch = (ch \<in> set [CHR '' '', CHR 0x09, CHR 0x0A, CHR 0x0B, CHR 0x0C, CHR 0x0D])"

definition digit_value :: "char \<Rightarrow> nat" where
  "digit_value ch =
     (let k = (of_char ch :: nat) in
      if 48 \<le> k \<and> k \<le> 57 then k - 48
      else if 97 \<le> k \<and> k \<le> 102 then k - 87
      else if 65 \<le> k \<and> k \<le> 70 then k - 55
      else 36)"

text \<open>
  \<^verbatim>\<open>parseInt(v)\<close> with no radix: the string of \<open>v\<close> without leading (ASCII) white space, an
  optional sign, an optional \<^verbatim>\<open>0x\<close> that selects base sixteen, then the longest run of
  digits; \<^verbatim>\<open>NaN\<close> when there is no digit. The result is the exact integer, where
  JavaScript rounds to a double; white space outside ASCII is not skipped.
\<close>

definition parseInt :: "jsval \<Rightarrow> jsval" where
  "parseInt v =
     (let s1 = dropWhile is_space (js_to_string v);
          negative = (take 1 s1 = ''-'');
          s2 = (if take 1 s1 = ''-'' \<or> take 1 s1 = ''+'' then drop 1 s1 else s1);
          hex = (take 2 s2 = ''0x'' \<or> take 2 s2 = ''0X'');
          radix = (if hex then 16 else 10);
          s3 = (if hex then drop 2 s2 else s2);
          ds = takeWhile (\<lambda>ch. digit_value ch < radix) s3;
          n = foldl (\<lambda>a ch. a * radix + digit_value ch) 0 ds
      in if ds = [] then JNaN else JNum (if negative then - int n else int n))"

text \<open>\<^verbatim>\<open>obj[k] = v\<close> on the list of properties: an existing key keeps its place.\<close>

fun set_prop :: "(string \<times> jsval) list \<Rightarrow> string \<Rightarrow> jsval \<Rightarrow> (string \<times> jsval) list" where
  "set_prop [] k v = [(k, v)]"
| "set_prop ((k', v') # kvs) k v = (if k' = k then (k, v) # kvs else (k', v') # set_prop kvs k v)"

text \<open>
  \<^verbatim>\<open>v.join(',')\<close>: the elements of an array separated by commas; a \<^verbatim>\<open>TypeError\<close> on
  a value that has no \<^verbatim>\<open>join\<close>.
\<close>

fun array_join :: "jsval \<Rightarrow> string prog" where
  "array_join (JArr xs) = return (js_join xs)"
| "array_join JUndefined = throw (TypeError ''Cannot read properties of undefined'')"
| "array_join JNull = throw (TypeError ''Cannot read properties of null'')"
| "array_join v = throw (TypeError ''join is not a function'')"

text \<open>
  \<^verbatim>\<open>delete v[k]\<close>: the object without the property; a \<^verbatim>\<open>TypeError\<close> on
  \<^verbatim>\<open>undefined\<close> and \<^verbatim>\<open>null\<close>; any other value is left as it is.
\<close>

fun delete_prop :: "jsval \<Rightarrow> string \<Rightarrow> jsval prog" where
  "delete_prop JUndefined k = throw (TypeError ''Cannot convert undefined or null to object'')"
| "delete_prop JNull k = throw (TypeError ''Cannot convert undefined or null to object'')"
| "delete_prop (JObj kvs) k = return (JObj (filter (\<lambda>kv. fst kv \<noteq> k) kvs))"
| "delete_prop v k = return v"

text \<open>
  \<^verbatim>\<open>encodeURIComponent(v)\<close> on the bytes of the string of \<open>v\<close>: letters, digits and
  \<^verbatim>\<open>- _ . ! ~ * ' ( )\<close> stay, every other byte becomes \<^verbatim>\<open>%\<close> and two hexadecimal digits.
\<close>

definition unreserved :: "char \<Rightarrow> bool" where
  "unreserved ch =
     (let k = (of_char ch :: nat) in
      (65 \<le> k \<and> k \<le> 90) \<or> (97 \<le> k \<and> k \<le> 122) \<or> (48 \<le> k \<and> k \<le> 57)
      \<or> ch \<in> set [CHR ''-'', CHR ''_'', CHR ''.'', CHR ''!'', CHR ''~'', CHR ''*'', CHR 0x27,
                     CHR ''('', CHR '')''])"

definition percent :: "char \<Rightarrow> string" where
  "percent ch =
     (let k = (of_char ch :: nat) in
      [CHR ''%'', ''0123456789ABCDEF'' ! (k div 16), ''0123456789ABCDEF'' ! (k mod 16)])"

definition encodeURIComponent :: "jsval \<Rightarrow> string" where
  "encodeURIComponent v =
     concat (map (\<lambda>ch. if unreserved ch then [ch] else percent ch) (js_to_string v))"

text \<open>
  The description of a notification is text. Where the code hands over a value of the
  error body as description, the model keeps the text of a string and of a number, and no
  text for anything else.
\<close>

fun as_text :: "jsval \<Rightarrow> string" where
  "as_text (JStr s) = s"
| "as_text (JNum n) = show_int n"
| "as_text v = []"

section \<open>Operation functions\<close>

text \<open>
  What the module imports from \<^verbatim>\<open>./components/Common\<close>, which is not part of the sources
  at hand: the constants and the function \<^verbatim>\<open>emptyToNull\<close> are parameters of the
  operations.
\<close>

record common =
  API_URI :: string
  VIDEOS_API :: string
  ARCHIVES_API :: string
  OTP_API :: string
  DEFAULT_LIMIT :: jsval
  emptyToNull :: "jsval \<Rightarrow> jsval"

definition error_toast :: "string \<Rightarrow> string \<Rightarrow> toast" where
  "error_toast t d = \<lparr>toast_type = ''error'', title = t, description = d, time = 5000\<rparr>"

definition updateChannel :: "common \<Rightarrow> fetch_behaviour \<Rightarrow> jsval \<Rightarrow> jsval \<Rightarrow> response prog" where
  "updateChannel c net id' channel =
     (let channel = emptyToNull c channel
      in apiPut net (VIDEOS_API c @ ''/channels/'' @ js_to_string id') channel)"

definition createChannel :: "common \<Rightarrow> fetch_behaviour \<Rightarrow> jsval \<Rightarrow> response prog" where
  "createChannel c net channel =
     (let channel = emptyToNull c channel
      in apiPost net (VIDEOS_API c @ ''/channels'') channel)"

definition deleteChannel :: "common \<Rightarrow> fetch_behaviour \<Rightarrow> jsval \<Rightarrow> response prog" where
  "deleteChannel c net channelId =
     apiDelete net (VIDEOS_API c @ ''/channels/'' @ js_to_string channelId)"

definition getChannels :: "common \<Rightarrow> fetch_behaviour \<Rightarrow> jsval prog" where
  "getChannels c net =
     await (apiGet net (VIDEOS_API c @ ''/channels'')) (\<lambda>response.
       if status response = 200 then
         await (json response) (\<lambda>(data, response).
         await (get_prop data ''channels'') (\<lambda>channels. return channels))
       else
         await (toast_js (error_toast ''Unexpected server response''
                  ''Failed to get channels.  See server logs.'')) (\<lambda>_.
         return JUndefined))"

definition getChannel :: "common \<Rightarrow> fetch_behaviour \<Rightarrow> jsval \<Rightarrow> jsval prog" where
  "getChannel c net id' =
     await (apiGet net (VIDEOS_API c @ ''/channels/'' @ js_to_string id')) (\<lambda>response.
     await (json response) (\<lambda>(data, response).
     await (get_prop data ''channel'') (\<lambda>channel. return channel)))"

definition searchVideos ::
  "common \<Rightarrow> fetch_behaviour \<Rightarrow> jsval \<Rightarrow> jsval \<Rightarrow> jsval \<Rightarrow> jsval \<Rightarrow> jsval \<Rightarrow> jsval \<Rightarrow> jsval \<Rightarrow> jsval prog" where
  "searchVideos c net offset limit channelId searchStr order_by tagNames headline =
     (let offset = parseInt (js_or offset (JNum 0));
          limit = parseInt (js_or limit (DEFAULT_LIMIT c));
          b = [(''offset'', offset), (''limit'', limit),
               (''order_by'', js_or order_by (JStr ''rank''))];
          b = (if truthy searchStr then set_prop b ''search_str'' searchStr else b);
          b = (if truthy channelId then set_prop b ''channel_id'' (parseInt channelId) else b);
          b = (if truthy tagNames then set_prop b ''tag_names'' tagNames else b);
          b = (if truthy headline then set_prop b ''headline'' (JBool True) else b)
      in await (console_log (LogDebug ''searching videos'' (JObj b))) (\<lambda>_.
         await (apiPost net (VIDEOS_API c @ ''/search'') (JObj b)) (\<lambda>response.
           if status response = 200 then
             await (json response) (\<lambda>(data, response).
             await (get_prop data ''file_groups'') (\<lambda>file_groups.
             await (get_prop data ''totals'') (\<lambda>totals.
             await (get_prop totals ''file_groups'') (\<lambda>total.
               return (JArr [file_groups, total])))))
           else
             await (toast_js (error_toast ''Unexpected server response''
                      ''Failed to search videos.  See server logs.'')) (\<lambda>_.
             return (JArr [JArr [], JNum 0])))))"

definition getVideo :: "common \<Rightarrow> fetch_behaviour \<Rightarrow> jsval \<Rightarrow> jsval prog" where
  "getVideo c net video_id =
     await (apiGet net (VIDEOS_API c @ ''/video/'' @ js_to_string video_id)) (\<lambda>response.
     await (json response) (\<lambda>(data, response).
     await (get_prop data ''file_group'') (\<lambda>file_group.
     await (get_prop data ''prev'') (\<lambda>prev.
     await (get_prop data ''next'') (\<lambda>next.
       return (JArr [file_group, prev, next]))))))"

definition deleteVideos :: "common \<Rightarrow> fetch_behaviour \<Rightarrow> jsval \<Rightarrow> jsval prog" where
  "deleteVideos c net videoIds =
     await (array_join videoIds) (\<lambda>i.
     await (apiDelete net (VIDEOS_API c @ ''/video/'' @ i)) (\<lambda>response.
       if status response \<noteq> 204 then
         await (toast_js (error_toast ''Unexpected server response''
                  ''Failed to delete videos.  See server logs.'')) (\<lambda>_.
         return JUndefined)
       else return JUndefined))"

definition getDirectories :: "common \<Rightarrow> fetch_behaviour \<Rightarrow> jsval \<Rightarrow> jsval prog" where
  "getDirectories c net search_str =
     (let form_data = JObj [(''search_str'', js_or search_str JNull)]
      in await (apiPost net (API_URI c @ ''/files/directories'') form_data) (\<lambda>response.
           if status response = 200 then
             await (json response) (\<lambda>(data, response). return data)
           else return (JArr [])))"

definition getStatus :: "common \<Rightarrow> fetch_behaviour \<Rightarrow> jsval prog" where
  "getStatus c net =
     await (apiGet net (API_URI c @ ''/status'')) (\<lambda>response.
       if status response = 200 then
         await (json response) (\<lambda>(data, response). return data)
       else
         await (toast_js (error_toast ''Unexpected server response''
                  ''Could not get server status'')) (\<lambda>_.
         return JUndefined))"

definition getSettings :: "common \<Rightarrow> fetch_behaviour \<Rightarrow> jsval prog" where
  "getSettings c net =
     await (apiGet net (API_URI c @ ''/settings'')) (\<lambda>response.
       if status response = 200 then
         await (json response) (\<lambda>(data, response). return data)
       else
         await (toast_js (error_toast ''Unexpected server response''
                  ''Could not get settings'')) (\<lambda>_.
         return JUndefined))"

definition saveSettings :: "common \<Rightarrow> fetch_behaviour \<Rightarrow> jsval \<Rightarrow> response prog" where
  "saveSettings c net settings = apiPatch net (API_URI c @ ''/settings'') settings"

definition getDownloads :: "common \<Rightarrow> fetch_behaviour \<Rightarrow> jsval prog" where
  "getDownloads c net =
     await (apiGet net (API_URI c @ ''/download'')) (\<lambda>response.
       if status response = 200 then
         await (json response) (\<lambda>(data, response). return data)
       else
         await (toast_js (error_toast ''Unexpected server response''
                  ''Could not get downloads'')) (\<lambda>_.
         return JUndefined))"

definition validateRegex :: "common \<Rightarrow> fetch_behaviour \<Rightarrow> jsval \<Rightarrow> jsval prog" where
  "validateRegex c net regex =
     await (apiPost net (API_URI c @ ''/valid_regex'') (JObj [(''regex'', regex)])) (\<lambda>response.
     await (json response) (\<lambda>(data, response).
     await (get_prop data ''valid'') (\<lambda>valid. return valid)))"

definition getVideosStatistics :: "common \<Rightarrow> fetch_behaviour \<Rightarrow> jsval prog" where
  "getVideosStatistics c net =
     await (apiGet net (VIDEOS_API c @ ''/statistics'')) (\<lambda>response.
       if status response = 200 then
         await (json response) (\<lambda>(data, response).
         await (get_prop data ''statistics'') (\<lambda>statistics. return statistics))
       else
         await (toast_js (error_toast ''Unexpected server response''
                  ''Could not get statistics'')) (\<lambda>_.
         return JUndefined))"

definition downloadChannel :: "common \<Rightarrow> fetch_behaviour \<Rightarrow> jsval \<Rightarrow> jsval prog" where
  "downloadChannel c net channelId =
     (let url = VIDEOS_API c @ ''/channels/download/'' @ js_to_string channelId
      in await (apiPost net url JUndefined) (\<lambda>response.
           if status response = 400 then
             await (json response) (\<lambda>(data, response).
             await (get_prop data ''code'') (\<lambda>code.
               if code = JNum 30 then
                 await (toast_js (error_toast ''Cannot Download!''
                          ''This channel does not have a download record.  Modify the frequency.'')) (\<lambda>_.
                 return JUndefined)
               else return JUndefined))
           else return JUndefined))"

text \<open>\<^verbatim>\<open>await promise\<close> on a promise nobody guards.\<close>

definition await_promise :: "'a promise \<Rightarrow> 'a prog" where
  "await_promise promise =
     (case promise of
        Never \<Rightarrow> (\<lambda>w. (Pending, w))
      | Settles t (Inl e) \<Rightarrow> throw e
      | Settles t (Inr res) \<Rightarrow> return res)"

definition refreshChannel :: "common \<Rightarrow> fetch_behaviour \<Rightarrow> jsval \<Rightarrow> jsval prog" where
  "refreshChannel c net channelId = (\<lambda>w.
     let url = VIDEOS_API c @ ''/channels/refresh/'' @ js_to_string channelId;
         (promise, w1) = fetch_js net url \<lparr>req_method = ''POST'', req_body = None\<rparr> w
     in await (await_promise promise) (\<lambda>_. return JUndefined) w1)"

definition encryptOTP :: "common \<Rightarrow> fetch_behaviour \<Rightarrow> jsval \<Rightarrow> jsval \<Rightarrow> jsval prog" where
  "encryptOTP c net otp plaintext =
     (let b = JObj [(''otp'', otp), (''plaintext'', plaintext)]
      in await (apiPost net (OTP_API c @ ''/encrypt_otp'') b) (\<lambda>response.
           if status response = 200 then
             await (json response) (\<lambda>(data, response). return data)
           else
             await (toast_js (error_toast ''Error!'' ''Failed to encrypt OTP'')) (\<lambda>_.
             return JUndefined)))"

definition decryptOTP :: "common \<Rightarrow> fetch_behaviour \<Rightarrow> jsval \<Rightarrow> jsval \<Rightarrow> jsval prog" where
  "decryptOTP c net otp ciphertext =
     (let b = JObj [(''otp'', otp), (''ciphertext'', ciphertext)]
      in await (apiPost net (OTP_API c @ ''/decrypt_otp'') b) (\<lambda>response.
           if status response = 200 then
             await (json response) (\<lambda>(data, response). return data)
           else
             await (toast_js (error_toast ''Error!'' ''Failed to decrypt OTP'')) (\<lambda>_.
             return JUndefined)))"

definition getCategories :: "common \<Rightarrow> fetch_behaviour \<Rightarrow> jsval prog" where
  "getCategories c net =
     await (apiGet net (API_URI c @ ''/inventory/categories'')) (\<lambda>response.
       if status response = 200 then
         await (json response) (\<lambda>(data, response).
         await (get_prop data ''categories'') (\<lambda>categories. return categories))
       else
         await (toast_js (error_toast ''Unexpected server response''
                  ''Could not get categories'')) (\<lambda>_.
         return JUndefined))"

definition getBrands :: "common \<Rightarrow> fetch_behaviour \<Rightarrow> jsval prog" where
  "getBrands c net =
     await (apiGet net (API_URI c @ ''/inventory/brands'')) (\<lambda>response.
       if status response = 200 then
         await (json response) (\<lambda>(data, response).
         await (get_prop data ''brands'') (\<lambda>brands. return brands))
       else
         await (toast_js (error_toast ''Unexpected server response''
                  ''Could not get brands'')) (\<lambda>_.
         return JUndefined))"

definition getInventories :: "common \<Rightarrow> fetch_behaviour \<Rightarrow> jsval prog" where
  "getInventories c net =
     await (apiGet net (API_URI c @ ''/inventory'')) (\<lambda>response.
       if status response = 200 then
         await (json response) (\<lambda>(data, response).
         await (get_prop data ''inventories'') (\<lambda>inventories. return inventories))
       else
         await (toast_js (error_toast ''Unexpected server response''
                  ''Could not get inventories'')) (\<lambda>_.
         return JUndefined))"

definition getInventory :: "common \<Rightarrow> fetch_behaviour \<Rightarrow> jsval \<Rightarrow> jsval prog" where
  "getInventory c net inventoryId =
     await (apiGet net (API_URI c @ ''/inventory/'' @ js_to_string inventoryId)) (\<lambda>response.
       if status response = 200 then
         await (json response) (\<lambda>(data, response). return data)
       else
         await (toast_js (error_toast ''Unexpected server response''
                  ''Could not get inventory'')) (\<lambda>_.
         return JUndefined))"

definition saveInventory :: "common \<Rightarrow> fetch_behaviour \<Rightarrow> jsval \<Rightarrow> response prog" where
  "saveInventory c net inventory = apiPost net (API_URI c @ ''/inventory'') inventory"

definition updateInventory :: "common \<Rightarrow> fetch_behaviour \<Rightarrow> jsval \<Rightarrow> jsval \<Rightarrow> response prog" where
  "updateInventory c net inventoryId inventory =
     await (delete_prop inventory ''id'') (\<lambda>inventory.
     apiPut net (API_URI c @ ''/inventory/'' @ js_to_string inventoryId) inventory)"

definition deleteInventory :: "common \<Rightarrow> fetch_behaviour \<Rightarrow> jsval \<Rightarrow> response prog" where
  "deleteInventory c net inventoryId =
     apiDelete net (API_URI c @ ''/inventory/'' @ js_to_string inventoryId)"

definition getItems :: "common \<Rightarrow> fetch_behaviour \<Rightarrow> jsval \<Rightarrow> jsval prog" where
  "getItems c net inventoryId =
     await (apiGet net (API_URI c @ ''/inventory/'' @ js_to_string inventoryId @ ''/item'')) (\<lambda>response.
     await (json response) (\<lambda>(data, response). return data))"

definition saveItem :: "common \<Rightarrow> fetch_behaviour \<Rightarrow> jsval \<Rightarrow> jsval \<Rightarrow> response prog" where
  "saveItem c net inventoryId item =
     apiPost net (API_URI c @ ''/inventory/'' @ js_to_string inventoryId @ ''/item'') item"

definition updateItem :: "common \<Rightarrow> fetch_behaviour \<Rightarrow> jsval \<Rightarrow> jsval \<Rightarrow> response prog" where
  "updateItem c net itemId item =
     (let item = emptyToNull c item
      in apiPut net (API_URI c @ ''/inventory/item/'' @ js_to_string itemId) item)"

definition deleteItems :: "common \<Rightarrow> fetch_behaviour \<Rightarrow> jsval \<Rightarrow> jsval prog" where
  "deleteItems c net itemIds =
     await (array_join itemIds) (\<lambda>i.
     await (apiDelete net (API_URI c @ ''/inventory/item/'' @ i)) (\<lambda>_.
       return JUndefined))"

text \<open>
  \<open>deleteArchives\<close> and \<open>refreshDirectoryFiles\<close> return the response, or
  \<^verbatim>\<open>undefined\<close> (\<open>None\<close>) when they have caught an error.
\<close>

definition deleteArchives :: "common \<Rightarrow> fetch_behaviour \<Rightarrow> jsval \<Rightarrow> response option prog" where
  "deleteArchives c net archiveIds =
     await (array_join archiveIds) (\<lambda>i.
     try_catch
       (await (apiDelete net (API_URI c @ ''/archive/'' @ i)) (\<lambda>response.
          return (Some response)))
       (\<lambda>e.
          await (console_log (LogError e)) (\<lambda>_.
          await (toast_js (error_toast ''Unexpected server response''
                   ''Unable to delete archives'')) (\<lambda>_.
          return None))))"

definition searchArchives ::
  "common \<Rightarrow> fetch_behaviour \<Rightarrow> jsval \<Rightarrow> jsval \<Rightarrow> jsval \<Rightarrow> jsval \<Rightarrow> jsval \<Rightarrow> jsval \<Rightarrow> jsval \<Rightarrow> jsval prog" where
  "searchArchives c net offset limit domain searchStr order tagNames headline =
     (let offset = parseInt (js_or offset (JNum 0));
          limit = parseInt (js_or limit (DEFAULT_LIMIT c));
          b = [(''offset'', offset), (''limit'', limit)];
          b = (if truthy domain then set_prop b ''domain'' domain else b);
          b = (if truthy searchStr then set_prop b ''search_str'' searchStr else b);
          b = (if truthy order then set_prop b ''order_by'' order else b);
          b = (if truthy tagNames then set_prop b ''tag_names'' tagNames else b);
          b = (if truthy headline then set_prop b ''headline'' (JBool True) else b)
      in await (console_log (LogDebug ''searching archives'' (JObj b))) (\<lambda>_.
         await (apiPost net (ARCHIVES_API c @ ''/search'') (JObj b)) (\<lambda>response.
           if status response = 200 then
             await (json response) (\<lambda>(data, response).
             await (get_prop data ''file_groups'') (\<lambda>file_groups.
             await (get_prop data ''totals'') (\<lambda>totals.
             await (get_prop totals ''file_groups'') (\<lambda>total.
               return (JArr [file_groups, total])))))
           else
             await (toast_js (error_toast ''Unable to search archives''
                      ''Cannot search archives.  See server logs.'')) (\<lambda>_.
             return (JArr [JArr [], JNum 0])))))"

definition fetchDomains :: "common \<Rightarrow> fetch_behaviour \<Rightarrow> jsval prog" where
  "fetchDomains c net =
     await (apiGet net (ARCHIVES_API c @ ''/domains'')) (\<lambda>response.
       if status response = 200 then
         await (json response) (\<lambda>(data, response).
         await (get_prop data ''domains'') (\<lambda>domains.
         await (get_prop data ''totals'') (\<lambda>totals.
         await (get_prop totals ''domains'') (\<lambda>total.
           return (JArr [domains, total])))))
       else
         await (toast_js (error_toast ''Domains Error''
                  ''Unable to fetch Domains.  See server logs.'')) (\<lambda>_.
         return JUndefined))"

definition getArchive :: "common \<Rightarrow> fetch_behaviour \<Rightarrow> jsval \<Rightarrow> jsval prog" where
  "getArchive c net archiveId =
     await (apiGet net (ARCHIVES_API c @ ''/'' @ js_to_string archiveId)) (\<lambda>response.
       if status response = 200 then
         await (json response) (\<lambda>(data, response).
         await (get_prop data ''file_group'') (\<lambda>file_group.
         await (get_prop data ''history'') (\<lambda>history.
           return (JArr [file_group, history]))))
       else
         await (toast_js (error_toast ''Archive Error''
                  ''Unable to get Archive.  See server logs.'')) (\<lambda>_.
         return JUndefined))"

definition postDownload ::
  "common \<Rightarrow> fetch_behaviour \<Rightarrow> jsval \<Rightarrow> jsval \<Rightarrow> jsval \<Rightarrow> jsval \<Rightarrow> jsval \<Rightarrow> jsval \<Rightarrow> jsval \<Rightarrow> response prog" where
  "postDownload c net urls downloader frequency sub_downloader excludedURLs destination tagNames =
     (if \<not> truthy downloader then
        await (toast_js (error_toast ''Failed to submit download''
                 ''downloader is required, but was not provided'')) (\<lambda>_.
        throw (Error ''downloader is required, but was not provided''))
      else
        let b = [(''urls'', urls), (''downloader'', downloader),
                 (''frequency'', js_or frequency JNull), (''excluded_urls'', excludedURLs),
                 (''destination'', js_or destination JNull)];
            b = (if truthy sub_downloader then set_prop b ''sub_downloader'' sub_downloader else b);
            b = (if truthy tagNames then set_prop b ''tag_names'' tagNames else b)
        in await (apiPost net (API_URI c @ ''/download'') (JObj b)) (\<lambda>response.
           return response))"

definition killDownload :: "common \<Rightarrow> fetch_behaviour \<Rightarrow> jsval \<Rightarrow> response prog" where
  "killDownload c net download_id =
     await (apiPost net (API_URI c @ ''/download/'' @ js_to_string download_id @ ''/kill'') JUndefined)
       (\<lambda>response. return response)"

definition killDownloads :: "common \<Rightarrow> fetch_behaviour \<Rightarrow> response prog" where
  "killDownloads c net =
     await (apiPost net (API_URI c @ ''/download/kill'') JUndefined) (\<lambda>response. return response)"

definition startDownloads :: "common \<Rightarrow> fetch_behaviour \<Rightarrow> response prog" where
  "startDownloads c net =
     await (apiPost net (API_URI c @ ''/download/enable'') JUndefined) (\<lambda>response. return response)"

definition getDownloaders :: "common \<Rightarrow> fetch_behaviour \<Rightarrow> jsval prog" where
  "getDownloaders c net =
     try_catch
       (await (apiGet net (API_URI c @ ''/downloaders'')) (\<lambda>response.
        await (json response) (\<lambda>(data, response). return data)))
       (\<lambda>e. return (JObj [(''downloaders'', JArr [])]))"

definition deleteDownload :: "common \<Rightarrow> fetch_behaviour \<Rightarrow> jsval \<Rightarrow> jsval prog" where
  "deleteDownload c net downloadId =
     try_catch
       (await (apiDelete net (API_URI c @ ''/download/'' @ js_to_string downloadId)) (\<lambda>response.
          if status response \<noteq> 204 then
            await (toast_js (error_toast ''Unable to delete''
                     ''Unable to delete the download.  See server logs.'')) (\<lambda>_.
            return JUndefined)
          else return JUndefined))
       (\<lambda>e. return JNull)"

definition filesSearch ::
  "common \<Rightarrow> fetch_behaviour \<Rightarrow> jsval \<Rightarrow> jsval \<Rightarrow> jsval \<Rightarrow> jsval \<Rightarrow> jsval \<Rightarrow> jsval \<Rightarrow> jsval \<Rightarrow> jsval prog" where
  "filesSearch c net offset limit searchStr mimetypes model tagNames headline =
     (let b = [(''search_str'', searchStr), (''offset'', parseInt offset),
               (''limit'', parseInt limit)];
          b = (if truthy mimetypes then set_prop b ''mimetypes'' mimetypes else b);
          b = (if truthy model then set_prop b ''model'' model else b);
          b = (if truthy tagNames then set_prop b ''tag_names'' tagNames else b);
          b = (if truthy headline then set_prop b ''headline'' (JBool True) else b)
      in await (console_log (LogDebug ''searching files'' (JObj b))) (\<lambda>_.
         await (apiPost net (API_URI c @ ''/files/search'') (JObj b)) (\<lambda>response.
           if status response = 200 then
             await (json response) (\<lambda>(data, response).
             await (get_prop data ''file_groups'') (\<lambda>file_groups.
             await (get_prop data ''totals'') (\<lambda>totals.
             await (get_prop totals ''file_groups'') (\<lambda>total.
               return (JArr [file_groups, total])))))
           else
             await (toast_js (error_toast ''Unable to search files''
                      ''Cannot search files.  See server logs.'')) (\<lambda>_.
             return (JArr [JNull, JNull])))))"

definition refreshFiles :: "common \<Rightarrow> fetch_behaviour \<Rightarrow> response prog" where
  "refreshFiles c net = apiPost net (API_URI c @ ''/files/refresh'') JUndefined"

definition refreshDirectoryFiles :: "common \<Rightarrow> fetch_behaviour \<Rightarrow> jsval \<Rightarrow> response option prog" where
  "refreshDirectoryFiles c net directory =
     (let b = JObj [(''paths'', JArr [directory])]
      in try_catch
           (await (apiPost net (API_URI c @ ''/files/refresh'') b) (\<lambda>response.
              return (Some response)))
           (\<lambda>e.
              await (console_log (LogError e)) (\<lambda>_.
              await (toast_js (error_toast ''Unable to refresh directory''
                       ''Cannot refresh the files in the directory.  See server logs.'')) (\<lambda>_.
              return None))))"

definition getFiles :: "common \<Rightarrow> fetch_behaviour \<Rightarrow> jsval \<Rightarrow> jsval prog" where
  "getFiles c net directories =
     await (console_log (LogDebugText (''getFiles '' @ js_to_string directories))) (\<lambda>_.
     (let b = JObj [(''directories'', js_or directories (JArr []))]
      in await (apiPost net (API_URI c @ ''/files'') b) (\<lambda>response.
         await (json response) (\<lambda>(data, response).
         await (get_prop data ''files'') (\<lambda>files. return files)))))"

definition deleteFile :: "common \<Rightarrow> fetch_behaviour \<Rightarrow> jsval \<Rightarrow> jsval prog" where
  "deleteFile c net file =
     (let b = JObj [(''file'', file)]
      in await (apiPost net (API_URI c @ ''/files/delete'') b) (\<lambda>_. return JUndefined))"

definition fetchFilesProgress :: "common \<Rightarrow> fetch_behaviour \<Rightarrow> jsval prog" where
  "fetchFilesProgress c net =
     await (apiGet net (API_URI c @ ''/files/refresh_progress'')) (\<lambda>response.
       if status response = 200 then
         await (json response) (\<lambda>(data, response).
         await (get_prop data ''progress'') (\<lambda>progress. return progress))
       else return JUndefined)"

definition getHotspotStatus :: "common \<Rightarrow> fetch_behaviour \<Rightarrow> jsval prog" where
  "getHotspotStatus c net =
     await (getSettings c net) (\<lambda>response.
     await (get_prop response ''hotspot_status'') (\<lambda>v. return v))"

definition setHotspot :: "common \<Rightarrow> fetch_behaviour \<Rightarrow> jsval \<Rightarrow> jsval prog" where
  "setHotspot c net on =
     await (if truthy on then apiPost net (API_URI c @ ''/hotspot/on'') JUndefined
            else apiPost net (API_URI c @ ''/hotspot/off'') JUndefined) (\<lambda>response.
       if status response = 204 then return JNull
       else
         await (json response) (\<lambda>(data, response).
         await (get_prop data ''code'') (\<lambda>code.
           if code = JNum 34 then
             await (toast_js (error_toast ''Unsupported!''
                      ''Hotspot is only supported on a Raspberry Pi!'')) (\<lambda>_.
             return JUndefined)
           else
             await (toast_js (error_toast ''Error!''
                      ''Could not modify hotspot.  See server logs.'')) (\<lambda>_.
             return JUndefined))))"

definition getThrottleStatus :: "common \<Rightarrow> fetch_behaviour \<Rightarrow> jsval prog" where
  "getThrottleStatus c net =
     await (getSettings c net) (\<lambda>response.
     await (get_prop response ''throttle_status'') (\<lambda>v. return v))"

definition setThrottle :: "common \<Rightarrow> fetch_behaviour \<Rightarrow> jsval \<Rightarrow> jsval prog" where
  "setThrottle c net on =
     await (if truthy on then apiPost net (API_URI c @ ''/throttle/on'') JUndefined
            else apiPost net (API_URI c @ ''/throttle/off'') JUndefined) (\<lambda>response.
       if status response = 204 then return JNull
       else
         await (json response) (\<lambda>(data, response).
         await (get_prop data ''code'') (\<lambda>code.
           if code = JNum 34 then
             await (toast_js (error_toast ''Unsupported!''
                      ''Throttle is only supported on a Raspberry Pi!'')) (\<lambda>_.
             return JUndefined)
           else
             await (toast_js (error_toast ''Error!''
                      ''Could not modify throttle.  See server logs.'')) (\<lambda>_.
             return JUndefined))))"

definition getMapImportStatus :: "common \<Rightarrow> fetch_behaviour \<Rightarrow> jsval prog" where
  "getMapImportStatus c net =
     await (apiGet net (API_URI c @ ''/map/files'')) (\<lambda>response.
       if status response = 200 then
         await (json response) (\<lambda>(data, response). return data)
       else
         await (toast_js (error_toast ''Unexpected server response''
                  ''Could not get import status'')) (\<lambda>_.
         return JUndefined))"

definition importMapFiles :: "common \<Rightarrow> fetch_behaviour \<Rightarrow> jsval \<Rightarrow> jsval prog" where
  "importMapFiles c net paths =
     (let b = JObj [(''files'', paths)]
      in await (apiPost net (API_URI c @ ''/map/import'') b) (\<lambda>response.
           if status response = 204 then return JNull
           else
             await (toast_js (error_toast ''Error!''
                      ''Could not start import!  See server logs.'')) (\<lambda>_.
             return JUndefined)))"

definition clearCompletedDownloads :: "common \<Rightarrow> fetch_behaviour \<Rightarrow> jsval prog" where
  "clearCompletedDownloads c net =
     await (apiPost net (API_URI c @ ''/download/clear_completed'') JUndefined) (\<lambda>response.
       if status response = 204 then return JNull
       else
         await (toast_js (error_toast ''Error!''
                  ''Could not clear completed downloads!  See server logs.'')) (\<lambda>_.
         return JUndefined))"

definition clearFailedDownloads :: "common \<Rightarrow> fetch_behaviour \<Rightarrow> jsval prog" where
  "clearFailedDownloads c net =
     await (apiPost net (API_URI c @ ''/download/clear_failed'') JUndefined) (\<lambda>response.
       if status response = 204 then return JNull
       else
         await (toast_js (error_toast ''Error!''
                  ''Could not clear failed downloads!  See server logs.'')) (\<lambda>_.
         return JUndefined))"

definition getStatistics :: "common \<Rightarrow> fetch_behaviour \<Rightarrow> jsval prog" where
  "getStatistics c net =
     await (apiGet net (API_URI c @ ''/statistics'')) (\<lambda>response.
       if status response = 200 then
         await (json response) (\<lambda>(contents, response). return contents)
       else
         await (toast_js (error_toast ''Error!'' ''Unable to get file statistics'')) (\<lambda>_.
         return JUndefined))"

definition getEvents :: "common \<Rightarrow> fetch_behaviour \<Rightarrow> jsval \<Rightarrow> jsval prog" where
  "getEvents c net after =
     (let uri = API_URI c @ ''/events/feed'';
          uri = (if truthy after then uri @ ''?after='' @ encodeURIComponent after else uri)
      in await (apiGet net uri) (\<lambda>response.
           if status response = 200 then
             await (json response) (\<lambda>(data, response). return data)
           else return JUndefined))"

definition getTags :: "common \<Rightarrow> fetch_behaviour \<Rightarrow> jsval prog" where
  "getTags c net =
     (let uri = API_URI c @ ''/tag''
      in await (apiGet net uri) (\<lambda>response.
           if status response = 200 then
             await (json response) (\<lambda>(b, response).
             await (get_prop b ''tags'') (\<lambda>tags. return tags))
           else return JUndefined))"

definition addTag :: "common \<Rightarrow> fetch_behaviour \<Rightarrow> jsval \<Rightarrow> jsval \<Rightarrow> jsval prog" where
  "addTag c net fileGroup name =
     (let b = [(''tag_name'', name)]
      in await (get_prop fileGroup ''id'') (\<lambda>id'.
         await (get_prop fileGroup ''primary_path'') (\<lambda>primary_path.
         await (get_prop fileGroup ''path'') (\<lambda>path.
         (let b = (if truthy id' then set_prop b ''file_group_id'' id'
                   else if truthy primary_path then set_prop b ''file_group_primary_path'' primary_path
                   else if truthy path then set_prop b ''file_group_primary_path'' path
                   else b);
              uri = API_URI c @ ''/files/tag''
          in await (apiPost net uri (JObj b)) (\<lambda>response.
               if status response \<noteq> 201 then
                 await (console_log (LogErrorText ''Failed to add tag'')) (\<lambda>_. return JUndefined)
               else return JUndefined))))))"

definition removeTag :: "common \<Rightarrow> fetch_behaviour \<Rightarrow> jsval \<Rightarrow> jsval \<Rightarrow> jsval prog" where
  "removeTag c net fileGroup name =
     (let b = [(''tag_name'', name)]
      in await (get_prop fileGroup ''id'') (\<lambda>id'.
         await (get_prop fileGroup ''primary_path'') (\<lambda>primary_path.
         await (get_prop fileGroup ''path'') (\<lambda>path.
         (let b = (if truthy id' then set_prop b ''file_group_id'' id'
                   else if truthy primary_path then set_prop b ''file_group_primary_path'' primary_path
                   else if truthy path then set_prop b ''file_group_primary_path'' path
                   else b);
              uri = API_URI c @ ''/files/untag''
          in await (apiPost net uri (JObj b)) (\<lambda>response.
               if status response \<noteq> 204 then
                 await (console_log (LogErrorText ''Failed to remove tag'')) (\<lambda>_. return JUndefined)
               else return JUndefined))))))"

definition saveTag :: "common \<Rightarrow> fetch_behaviour \<Rightarrow> jsval \<Rightarrow> jsval \<Rightarrow> jsval \<Rightarrow> jsval prog" where
  "saveTag c net name color id' =
     (let b = JObj [(''name'', name), (''color'', color)];
          uri = API_URI c @ ''/tag'';
          uri = (if truthy id' then uri @ ''/'' @ js_to_string id' else uri)
      in await (apiPost net uri b) (\<lambda>response.
           if truthy id' \<and> status response = 200 then
             await (toast_js \<lparr>toast_type = ''info'', title = ''Saved tag'',
                      description = ''Saved tag: '' @ js_to_string name, time = 2000\<rparr>) (\<lambda>_.
             return JUndefined)
           else if status response = 201 then
             await (toast_js \<lparr>toast_type = ''info'', title = ''Created new tag'',
                      description = ''Created new tag: '' @ js_to_string name, time = 2000\<rparr>) (\<lambda>_.
             return JUndefined)
           else
             await (console_log (LogErrorText ''Failed to create new tag'')) (\<lambda>_.
             await (toast_js (error_toast ''Error!'' ''Unable to save tag'')) (\<lambda>_.
             return JUndefined))))"

definition deleteTag :: "common \<Rightarrow> fetch_behaviour \<Rightarrow> jsval \<Rightarrow> jsval \<Rightarrow> jsval prog" where
  "deleteTag c net id' name =
     (let uri = API_URI c @ ''/tag/'' @ js_to_string id'
      in await (apiDelete net uri) (\<lambda>response.
           if status response = 400 then
             await (json response) (\<lambda>(content, response).
             await (get_prop content ''code'') (\<lambda>code.
               if code = JNum 38 then
                 await (get_prop content ''message'') (\<lambda>message.
                 await (toast_js (error_toast ''Error!'' (as_text message))) (\<lambda>_.
                 return JUndefined))
               else return JUndefined))
           else if status response \<noteq> 204 then
             await (console_log (LogErrorText ''Failed to delete tag'')) (\<lambda>_.
             await (toast_js (error_toast ''Error!''
                      (''Unable to delete tag: '' @ js_to_string name))) (\<lambda>_.
             return JUndefined))
           else return JUndefined))"

definition fetchFile :: "common \<Rightarrow> fetch_behaviour \<Rightarrow> jsval \<Rightarrow> jsval prog" where
  "fetchFile c net path =
     (let uri = API_URI c @ ''/files/file'';
          b = JObj [(''file'', path)]
      in await (apiPost net uri b) (\<lambda>response.
           if status response = 200 then
             await (json response) (\<lambda>(content, response).
             await (get_prop content ''file'') (\<lambda>file. return file))
           else
             await (console_log (LogErrorText ''Unable to fetch file dict!  See client logs.'')) (\<lambda>_.
             return JUndefined)))"

definition sendNotification :: "common \<Rightarrow> fetch_behaviour \<Rightarrow> jsval \<Rightarrow> jsval \<Rightarrow> jsval prog" where
  "sendNotification c net message url =
     (let b = JObj [(''message'', message), (''url'', url)]
      in await (apiPost net (API_URI c @ ''/notify'') b) (\<lambda>response.
           if status response = 201 then
             await (toast_js \<lparr>toast_type = ''success'', title = ''Shared'',
                      description = ''Your share was sent'', time = 2000\<rparr>) (\<lambda>_.
             return JUndefined)
           else
             await (toast_js (error_toast ''Error'' ''Your share failed to send!'')) (\<lambda>_.
             await (console_log (LogErrorText ''Failed to share'')) (\<lambda>_.
             return JUndefined))))"

definition searchDirectories :: "common \<Rightarrow> fetch_behaviour \<Rightarrow> jsval \<Rightarrow> jsval prog" where
  "searchDirectories c net name =
     (let b = JObj [(''name'', js_or name (JStr ''''))]
      in await (apiPost net (API_URI c @ ''/files/search_directories'') b) (\<lambda>response.
           if status response = 204 then return (JArr [])
           else if status response = 200 then
             await (json response) (\<lambda>(content, response). return content)
           else
             await (toast_js (error_toast ''Error'' ''Failed to search directories!'')) (\<lambda>_.
             return JUndefined)))"



section \<open>The world after a call\<close>

text \<open>Shorthands for stating what a call has changed.\<close>

definition empty_world :: world where
  "empty_world = \<lparr>toasts = [], console = [], fetched = [], timers = [], delays = [], next_timer = 0,
     fired = []\<rparr>"

definition timeout_of :: "nat option \<Rightarrow> nat" where
  "timeout_of ms_arg = (case ms_arg of None \<Rightarrow> 60000 | Some m \<Rightarrow> m)"

definition request_init :: "string \<Rightarrow> jsval \<Rightarrow> init" where
  "request_init meth body_arg =
     \<lparr>req_method = meth, req_body = (if body_arg \<noteq> JUndefined then Some body_arg else None)\<rparr>"

text \<open>
  A timer of delay \<open>ms\<close> was set and is no longer pending: its callback has run
  (\<open>fires\<close>), or it was taken out of the table before.
\<close>

definition after_timer :: "nat \<Rightarrow> bool \<Rightarrow> world \<Rightarrow> world" where
  "after_timer ms fires w =
     w\<lparr>timers := removeAll (next_timer w) (timers w), delays := delays w @ [ms],
       next_timer := Suc (next_timer w),
       fired := (if fires then fired w @ [next_timer w] else fired w)\<rparr>"

text \<open>The timer of a call runs its callback when the answer has not come by then.\<close>

definition timer_fires :: "nat \<Rightarrow> fetch_behaviour \<Rightarrow> bool" where
  "timer_fires ms net = (case net of NoAnswer \<Rightarrow> True | Answers t out \<Rightarrow> ms < t)"

text \<open>One request went out under a timer of delay \<open>ms\<close>.\<close>

definition sent :: "fetch_behaviour \<Rightarrow> string \<Rightarrow> string \<Rightarrow> jsval \<Rightarrow> nat \<Rightarrow> world \<Rightarrow> world" where
  "sent net url meth body_arg ms w =
     after_timer ms (timer_fires ms net)
       (w\<lparr>fetched := fetched w @ [(url, request_init meth body_arg)]\<rparr>)"

definition logged :: "log \<Rightarrow> world \<Rightarrow> world" where
  "logged l w = w\<lparr>console := console w @ [l]\<rparr>"

definition toasted :: "toast \<Rightarrow> world \<Rightarrow> world" where
  "toasted t w = w\<lparr>toasts := toasts w @ [t]\<rparr>"

section \<open>Kinds of outcome of the network\<close>

text \<open>The error body can be read: it is JSON, and a property can be read off its value.\<close>

definition readable :: "reply \<Rightarrow> bool" where
  "readable r = (case reply_body r of Json v \<Rightarrow> v \<noteq> JNull \<and> v \<noteq> JUndefined | _ \<Rightarrow> False)"

text \<open>The replies the executor hands to its caller: a 2xx status, or a readable error body.\<close>

definition handed_back :: "reply \<Rightarrow> bool" where
  "handed_back r = (200 \<le> reply_status r \<and> reply_status r < 300 \<or> readable r)"

text \<open>The reply of a server in write-protected mode: status 403 and \<open>code\<close> 17.\<close>

definition write_protected :: "reply \<Rightarrow> bool" where
  "write_protected r =
     (reply_status r = 403 \<and>
      (case reply_body r of Json (JObj kvs) \<Rightarrow> map_of kvs ''code'' = Some (JNum 17) | _ \<Rightarrow> False))"

definition intercepted :: "reply \<Rightarrow> world \<Rightarrow> world" where
  "intercepted r w = (if write_protected r then toasted wrol_toast w else w)"


text \<open>The value of a JSON body, and \<^verbatim>\<open>v[k]\<close> on a value that is not \<^verbatim>\<open>null\<close>.\<close>

definition body_value :: "reply \<Rightarrow> jsval" where
  "body_value r = (case reply_body r of Json v \<Rightarrow> v | _ \<Rightarrow> JUndefined)"

definition property :: "jsval \<Rightarrow> string \<Rightarrow> jsval" where
  "property v k =
     (case v of
        JObj kvs \<Rightarrow> (case map_of kvs k of None \<Rightarrow> JUndefined | Some x \<Rightarrow> x)
      | _ \<Rightarrow> JUndefined)"

section \<open>Sample inputs\<close>

definition ok_reply :: reply where
  "ok_reply = \<lparr>reply_status = 200, reply_body = Json (JObj [(''version'', JStr ''1'')])\<rparr>"

definition wrol_reply :: reply where
  "wrol_reply = \<lparr>reply_status = 403,
      reply_body = Json (JObj [(''code'', JNum 17), (''message'', JStr ''WROL Mode is enabled'')])\<rparr>"

definition bad_gateway :: reply where
  "bad_gateway = \<lparr>reply_status = 502, reply_body = NotJson ''<html>502 Bad Gateway</html>''\<rparr>"

definition server_error :: reply where
  "server_error = \<lparr>reply_status = 500,
      reply_body = Json (JObj [(''code'', JNum 1), (''message'', JStr ''Internal error'')])\<rparr>"

fun sample_emptyToNull :: "jsval \<Rightarrow> jsval" where
  "sample_emptyToNull (JObj kvs) =
     JObj (map (\<lambda>kv. (fst kv, if snd kv = JStr [] then JNull else snd kv)) kvs)"
| "sample_emptyToNull v = v"

definition sample_common :: common where
  "sample_common = \<lparr>API_URI = ''/api'', VIDEOS_API = ''/api/videos'',
      ARCHIVES_API = ''/api/archive'', OTP_API = ''/api/otp'', DEFAULT_LIMIT = JNum 20,
      emptyToNull = sample_emptyToNull\<rparr>"

definition search_reply :: reply where
  "search_reply = \<lparr>reply_status = 200, reply_body = Json (JObj
      [(''file_groups'', JArr [JObj [(''id'', JNum 7)], JObj [(''id'', JNum 9)]]),
       (''totals'', JObj [(''file_groups'', JNum 42)])])\<rparr>"

definition settings_reply :: reply where
  "settings_reply = \<lparr>reply_status = 200, reply_body = Json (JObj
      [(''hotspot_status'', JStr ''connected''), (''throttle_status'', JStr ''ondemand'')])\<rparr>"

section \<open>What the guard gives a caller\<close>

text \<open>The answer arrives by the default timeout and is the write-protected one.\<close>

definition intercepts :: "fetch_behaviour \<Rightarrow> bool" where
  "intercepts net = (case net of Answers t (Inr r) \<Rightarrow> t \<le> 60000 \<and> write_protected r | _ \<Rightarrow> False)"

text \<open>
  A piece of program that settles, sends nothing, touches no timer and does not raise the
  WROL-mode notification.
\<close>

definition quiet :: "'a prog \<Rightarrow> bool" where
  "quiet m = (\<forall>w. fst (m w) \<noteq> Pending
      \<and> fetched (snd (m w)) = fetched w \<and> delays (snd (m w)) = delays w
      \<and> timers (snd (m w)) = timers w \<and> next_timer (snd (m w)) = next_timer w
      \<and> (\<exists>ts. toasts (snd (m w)) = toasts w @ ts \<and> wrol_toast \<notin> set ts))"

text \<open>
  A program under the guard: it settles; it sends one request and sets one timer of 60000
  ms, which is no longer pending at the end; it raises the WROL-mode notification once when
  the answer is the write-protected one, and not at all otherwise.
\<close>

definition guarded :: "fetch_behaviour \<Rightarrow> 'a prog \<Rightarrow> bool" where
  "guarded net m = (\<forall>w. fst (m w) \<noteq> Pending
      \<and> length (fetched (snd (m w))) = Suc (length (fetched w))
      \<and> delays (snd (m w)) = delays w @ [60000]
      \<and> timers (snd (m w)) = removeAll (next_timer w) (timers w)
      \<and> next_timer (snd (m w)) = Suc (next_timer w)
      \<and> (\<exists>ts. toasts (snd (m w)) = toasts w @ ts
             \<and> count_list ts wrol_toast = (if intercepts net then 1 else 0)))"

section \<open>The timeout guard: lemmas\<close>

lemmas guard_defs = timeoutPromise_def schedule_def setTimeout_def deliver_def on_fulfilled_def
  on_rejected_def on_timeout_def clearTimeout_def fire_def settle_def after_timer_def

lemma timeoutPromise_early:
  "t \<le> ms \<Longrightarrow> timeoutPromise ms (Settles t out) w =
     (case out of Inl e \<Rightarrow> Throw e | Inr res \<Rightarrow> Return res, after_timer ms False w)"
  by (cases out) (simp_all add: guard_defs)

lemma timeoutPromise_late:
  "ms < t \<Longrightarrow> timeoutPromise ms (Settles t out) w =
     (Throw (Error ''promise timeout''), after_timer ms True w)"
  by (cases out) (simp_all add: guard_defs)

lemma timeoutPromise_never:
  "timeoutPromise ms Never w = (Throw (Error ''promise timeout''), after_timer ms True w)"
  by (simp add: guard_defs)

text \<open>Once the promise is settled, neither event changes what it was settled with.\<close>

lemma deliver_settled: "snd (deliver timeoutId (w, Some v) ev) = Some v"
  by (cases ev)
     (auto simp: deliver_def on_timeout_def on_fulfilled_def on_rejected_def settle_def
        split: sum.splits)

lemma foldl_deliver_settled: "snd (foldl (deliver timeoutId) (w, Some v) evs) = Some v"
proof (induction evs arbitrary: w)
  case Nil
  show ?case by simp
next
  case (Cons ev evs)
  obtain w' where "deliver timeoutId (w, Some v) ev = (w', Some v)"
    using deliver_settled [of timeoutId w v ev] by (cases "deliver timeoutId (w, Some v) ev") simp
  then show ?case using Cons.IH [of w'] by simp
qed

text \<open>
  Whatever the order and number of the events: after the first of them the timer is out of
  the table, and the first of them decides what the promise is settled with.
\<close>

lemma deliver_clears: "timeoutId \<notin> set (timers (fst (deliver timeoutId s ev)))"
  by (cases ev)
     (auto simp: deliver_def on_timeout_def on_fulfilled_def on_rejected_def clearTimeout_def
        fire_def split: sum.splits)

lemma foldl_deliver_clears:
  "evs \<noteq> [] \<Longrightarrow> timeoutId \<notin> set (timers (fst (foldl (deliver timeoutId) s evs)))"
proof (induction evs rule: rev_induct)
  case Nil
  then show ?case by simp
next
  case (snoc ev evs)
  show ?case by (simp add: deliver_clears)
qed

lemma settled_first_wins:
  "snd (foldl (deliver timeoutId) (w, None) (PromiseSettled out # evs)) = Some out"
proof -
  obtain w' where "deliver timeoutId (w, None) (PromiseSettled out) = (w', Some out)"
    by (cases out) (simp_all add: deliver_def on_fulfilled_def on_rejected_def settle_def)
  then show ?thesis using foldl_deliver_settled [of timeoutId w' out evs] by simp
qed

lemma timer_first_wins:
  assumes "timeoutId \<in> set (timers w)"
  shows "snd (foldl (deliver timeoutId) (w, None) (TimerDue # evs))
       = Some (Inl (Error ''promise timeout''))"
proof -
  let ?first = "deliver timeoutId (w, None) (hd (TimerDue # evs))"
  obtain w' where "?first = (w', Some (Inl (Error ''promise timeout'')))"
    using assms by (simp add: deliver_def on_timeout_def settle_def)
  then show ?thesis
    using foldl_deliver_settled [of timeoutId w' "Inl (Error ''promise timeout'')" evs] by simp
qed

text \<open>
  A timer that was cleared never runs its callback: once the promise has settled, the
  events that follow add nothing to \<open>fired\<close>.
\<close>

lemma deliver_cleared:
  "timeoutId \<notin> set (timers (fst s)) \<Longrightarrow> fired (fst (deliver timeoutId s ev)) = fired (fst s)"
  by (cases ev)
     (auto simp: deliver_def on_timeout_def on_fulfilled_def on_rejected_def clearTimeout_def
        split: sum.splits)

lemma settled_first_clears:
  "timeoutId \<notin> set (timers (fst (deliver timeoutId s (PromiseSettled out))))
   \<and> fired (fst (deliver timeoutId s (PromiseSettled out))) = fired (fst s)"
  by (cases out) (simp_all add: deliver_def on_fulfilled_def on_rejected_def clearTimeout_def)

section \<open>The guarded executor: lemmas\<close>

lemmas prog_defs = await_def try_catch_def return_def throw_def toast_js_def console_log_def

lemmas call_defs = apiCall_def fetch_js_def prog_defs sent_def logged_def request_init_def
  timeout_of_def timer_fires_def Let_def

lemma apiCall_no_answer:
  "apiCall NoAnswer url meth b ms_arg w =
     (Throw (Error ''promise timeout''),
      logged (LogError (Error ''promise timeout'')) (sent NoAnswer url meth b (timeout_of ms_arg) w))"
  by (simp add: call_defs timeoutPromise_never)

lemma apiCall_late:
  "timeout_of ms_arg < t \<Longrightarrow> apiCall (Answers t out) url meth b ms_arg w =
     (Throw (Error ''promise timeout''),
      logged (LogError (Error ''promise timeout''))
        (sent (Answers t out) url meth b (timeout_of ms_arg) w))"
  by (cases out) (simp_all add: call_defs timeoutPromise_late)

lemma apiCall_rejected:
  "t \<le> timeout_of ms_arg \<Longrightarrow> apiCall (Answers t (Inl reason)) url meth b ms_arg w =
     (Throw (FetchError reason),
      logged (LogError (FetchError reason))
        (sent (Answers t (Inl reason)) url meth b (timeout_of ms_arg) w))"
  by (simp add: call_defs timeoutPromise_early)

lemma apiCall_success:
  "t \<le> timeout_of ms_arg \<Longrightarrow> 200 \<le> reply_status r \<Longrightarrow> reply_status r < 300 \<Longrightarrow>
   apiCall (Answers t (Inr r)) url meth b ms_arg w =
     (Return (Response r), sent (Answers t (Inr r)) url meth b (timeout_of ms_arg) w)"
  by (simp add: call_defs timeoutPromise_early Response_def)

lemma apiCall_error_json:
  "t \<le> timeout_of ms_arg \<Longrightarrow> \<not> (200 \<le> reply_status r \<and> reply_status r < 300) \<Longrightarrow>
   reply_body r = Json v \<Longrightarrow> v \<noteq> JNull \<Longrightarrow> v \<noteq> JUndefined \<Longrightarrow>
   apiCall (Answers t (Inr r)) url meth b ms_arg w =
     (Return (Response r),
      if reply_status r = 403 \<and> get_prop v ''code'' = return (JNum 17)
      then toasted wrol_toast (sent (Answers t (Inr r)) url meth b (timeout_of ms_arg) w)
      else sent (Answers t (Inr r)) url meth b (timeout_of ms_arg) w)"
  by (cases v)
     (simp_all add: call_defs timeoutPromise_early Response_def clone_def json_def toasted_def)

lemma apiCall_error_not_json:
  "t \<le> timeout_of ms_arg \<Longrightarrow> \<not> (200 \<le> reply_status r \<and> reply_status r < 300) \<Longrightarrow>
   reply_body r = NoBody \<or> reply_body r = NotJson s \<Longrightarrow>
   apiCall (Answers t (Inr r)) url meth b ms_arg w =
     (Throw (SyntaxError (if reply_body r = NoBody then ''Unexpected end of JSON input''
                          else ''Unexpected token'')),
      logged (LogError (SyntaxError (if reply_body r = NoBody then ''Unexpected end of JSON input''
                          else ''Unexpected token'')))
        (sent (Answers t (Inr r)) url meth b (timeout_of ms_arg) w))"
  by (auto simp: call_defs timeoutPromise_early Response_def clone_def json_def)

lemma apiCall_error_null:
  "t \<le> timeout_of ms_arg \<Longrightarrow> \<not> (200 \<le> reply_status r \<and> reply_status r < 300) \<Longrightarrow>
   reply_body r = Json JNull \<Longrightarrow>
   apiCall (Answers t (Inr r)) url meth b ms_arg w =
     (Throw (TypeError ''Cannot read properties of null''),
      logged (LogError (TypeError ''Cannot read properties of null''))
        (sent (Answers t (Inr r)) url meth b (timeout_of ms_arg) w))"
  by (simp add: call_defs timeoutPromise_early Response_def clone_def json_def)

lemma apiCall_error_undefined:
  "t \<le> timeout_of ms_arg \<Longrightarrow> \<not> (200 \<le> reply_status r \<and> reply_status r < 300) \<Longrightarrow>
   reply_body r = Json JUndefined \<Longrightarrow>
   apiCall (Answers t (Inr r)) url meth b ms_arg w =
     (Throw (TypeError ''Cannot read properties of undefined''),
      logged (LogError (TypeError ''Cannot read properties of undefined''))
        (sent (Answers t (Inr r)) url meth b (timeout_of ms_arg) w))"
  by (simp add: call_defs timeoutPromise_early Response_def clone_def json_def)

lemma world_simps:
  "toasts (toasted x w) = toasts w @ [x]"
  "console (toasted x w) = console w"
  "fetched (toasted x w) = fetched w"
  "timers (toasted x w) = timers w"
  "delays (toasted x w) = delays w"
  "next_timer (toasted x w) = next_timer w"
  "fired (toasted x w) = fired w"
  "toasts (logged l w) = toasts w"
  "console (logged l w) = console w @ [l]"
  "fetched (logged l w) = fetched w"
  "timers (logged l w) = timers w"
  "delays (logged l w) = delays w"
  "next_timer (logged l w) = next_timer w"
  "fired (logged l w) = fired w"
  "toasts (sent net url meth b ms w) = toasts w"
  "console (sent net url meth b ms w) = console w"
  "fetched (sent net url meth b ms w) = fetched w @ [(url, request_init meth b)]"
  "timers (sent net url meth b ms w) = removeAll (next_timer w) (timers w)"
  "delays (sent net url meth b ms w) = delays w @ [ms]"
  "next_timer (sent net url meth b ms w) = Suc (next_timer w)"
  "fired (sent net url meth b ms w) = (if timer_fires ms net then fired w @ [next_timer w] else fired w)"
  "toasts (intercepted r w) = toasts w @ (if write_protected r then [wrol_toast] else [])"
  "console (intercepted r w) = console w"
  "fetched (intercepted r w) = fetched w"
  "timers (intercepted r w) = timers w"
  "delays (intercepted r w) = delays w"
  "next_timer (intercepted r w) = next_timer w"
  "fired (intercepted r w) = fired w"
  by (simp_all add: toasted_def logged_def sent_def after_timer_def intercepted_def)

text \<open>Every way a call can end.\<close>

lemma apiCall_cases:
  obtains
    (timeout) "apiCall net url meth b ms_arg w =
       (Throw (Error ''promise timeout''),
        logged (LogError (Error ''promise timeout'')) (sent net url meth b (timeout_of ms_arg) w))"
      and "net = NoAnswer \<or> (\<exists>t out. net = Answers t out \<and> timeout_of ms_arg < t)"
  | (rejected) t reason where "net = Answers t (Inl reason)" "t \<le> timeout_of ms_arg"
      "apiCall net url meth b ms_arg w =
       (Throw (FetchError reason),
        logged (LogError (FetchError reason)) (sent net url meth b (timeout_of ms_arg) w))"
  | (returned) t r where "net = Answers t (Inr r)" "t \<le> timeout_of ms_arg"
      "apiCall net url meth b ms_arg w
         = (Return (Response r), sent net url meth b (timeout_of ms_arg) w)
       \<or> apiCall net url meth b ms_arg w
         = (Return (Response r), toasted wrol_toast (sent net url meth b (timeout_of ms_arg) w))"
  | (unreadable) t r e where "net = Answers t (Inr r)" "t \<le> timeout_of ms_arg"
      "\<not> (200 \<le> reply_status r \<and> reply_status r < 300)"
      "e = SyntaxError ''Unexpected end of JSON input'' \<or> e = SyntaxError ''Unexpected token''
        \<or> e = TypeError ''Cannot read properties of null''
        \<or> e = TypeError ''Cannot read properties of undefined''"
      "apiCall net url meth b ms_arg w =
       (Throw e, logged (LogError e) (sent net url meth b (timeout_of ms_arg) w))"
proof (cases net)
  case NoAnswer
  then show ?thesis using timeout apiCall_no_answer by blast
next
  case (Answers t out)
  show ?thesis
  proof (cases "t \<le> timeout_of ms_arg")
    case False
    then have "timeout_of ms_arg < t" by simp
    then show ?thesis using timeout Answers apiCall_late by blast
  next
    case early: True
    show ?thesis
    proof (cases out)
      case (Inl reason)
      then show ?thesis using rejected Answers early apiCall_rejected by blast
    next
      case (Inr r)
      show ?thesis
      proof (cases "200 \<le> reply_status r \<and> reply_status r < 300")
        case True
        then show ?thesis using returned [of t r] Answers Inr early apiCall_success by simp
      next
        case err: False
        show ?thesis
        proof (cases "reply_body r")
          case NoBody
          then show ?thesis
            using unreadable [of t r] Answers Inr early err
              apiCall_error_not_json [of t ms_arg r undefined url meth b w] by simp
        next
          case (NotJson s)
          then show ?thesis
            using unreadable [of t r] Answers Inr early err
              apiCall_error_not_json [of t ms_arg r s url meth b w] by simp
        next
          case (Json v)
          show ?thesis
          proof (cases "v = JNull \<or> v = JUndefined")
            case True
            then show ?thesis
              using unreadable [of t r] Answers Inr early err Json
                apiCall_error_null [of t ms_arg r url meth b w]
                apiCall_error_undefined [of t ms_arg r url meth b w] by auto
          next
            case False
            then show ?thesis
              using returned [of t r] Answers Inr early err Json
                apiCall_error_json [of t ms_arg r v url meth b w] by (simp split: if_splits)
          qed
        qed
      qed
    qed
  qed
qed

lemma apiCall_timer:
  "timers (snd (apiCall net url meth b ms_arg w)) = removeAll (next_timer w) (timers w)"
  "delays (snd (apiCall net url meth b ms_arg w)) = delays w @ [timeout_of ms_arg]"
  "next_timer (snd (apiCall net url meth b ms_arg w)) = Suc (next_timer w)"
  "fetched (snd (apiCall net url meth b ms_arg w)) = fetched w @ [(url, request_init meth b)]"
  "fired (snd (apiCall net url meth b ms_arg w))
     = (if timer_fires (timeout_of ms_arg) net then fired w @ [next_timer w] else fired w)"
  by (rule apiCall_cases [of net url meth b ms_arg w]; auto simp: world_simps)+

lemma apiCall_handed_back:
  assumes "t \<le> timeout_of ms_arg" "handed_back r"
  shows "apiCall (Answers t (Inr r)) url meth b ms_arg w =
     (Return (Response r),
      intercepted r (sent (Answers t (Inr r)) url meth b (timeout_of ms_arg) w))"
proof (cases "200 \<le> reply_status r \<and> reply_status r < 300")
  case True
  then have "\<not> write_protected r" by (auto simp: write_protected_def)
  then show ?thesis using True assms(1) by (simp add: apiCall_success intercepted_def)
next
  case False
  then obtain v where v: "reply_body r = Json v" "v \<noteq> JNull" "v \<noteq> JUndefined"
    using assms(2) by (auto simp: handed_back_def readable_def split: body.splits)
  have "write_protected r \<longleftrightarrow> reply_status r = 403 \<and> get_prop v ''code'' = return (JNum 17)"
    using v by (cases v) (auto simp: write_protected_def return_def fun_eq_iff split: option.splits)
  then show ?thesis
    using apiCall_error_json [OF assms(1) False v, of url meth b w] by (simp add: intercepted_def)
qed


text \<open>An error body that cannot be read, on a status outside 2xx.\<close>

lemma apiCall_unreadable:
  assumes "t \<le> timeout_of ms_arg" "\<not> (200 \<le> reply_status r \<and> reply_status r < 300)"
    "reply_body r = NoBody \<or> (\<exists>s. reply_body r = NotJson s)"
  shows "\<exists>msg. apiCall (Answers t (Inr r)) url meth b ms_arg w =
     (Throw (SyntaxError msg),
      logged (LogError (SyntaxError msg)) (sent (Answers t (Inr r)) url meth b (timeout_of ms_arg) w))"
proof -
  from assms(3) obtain s where "reply_body r = NoBody \<or> reply_body r = NotJson s" by blast
  from apiCall_error_not_json [OF assms(1,2) this] show ?thesis by blast
qed

lemma apiCall_throws:
  assumes "\<not> (\<exists>t r. net = Answers t (Inr r) \<and> t \<le> timeout_of ms_arg \<and> handed_back r)"
  shows "\<exists>e. apiCall net url meth b ms_arg w
        = (Throw e, logged (LogError e) (sent net url meth b (timeout_of ms_arg) w))"
proof (rule apiCall_cases [of net url meth b ms_arg w])
  fix t r
  assume net: "net = Answers t (Inr r)" "t \<le> timeout_of ms_arg"
    and ret: "apiCall net url meth b ms_arg w
         = (Return (Response r), sent net url meth b (timeout_of ms_arg) w)
       \<or> apiCall net url meth b ms_arg w
         = (Return (Response r), toasted wrol_toast (sent net url meth b (timeout_of ms_arg) w))"
  from assms net have nhb: "\<not> handed_back r" by blast
  then have n2: "\<not> (200 \<le> reply_status r \<and> reply_status r < 300)" and nr: "\<not> readable r"
    by (auto simp: handed_back_def)
  from nr consider "reply_body r = NoBody" | s where "reply_body r = NotJson s"
    | "reply_body r = Json JNull" | "reply_body r = Json JUndefined"
    by (auto simp: readable_def split: body.splits)
  then show ?thesis
  proof cases
    case 1
    then show ?thesis using net n2 apiCall_error_not_json [of t ms_arg r undefined url meth b w] by auto
  next
    case 2
    then show ?thesis using net n2 apiCall_error_not_json [of t ms_arg r s url meth b w] by auto
  next
    case 3
    then show ?thesis using net n2 apiCall_error_null [of t ms_arg r url meth b w] by auto
  next
    case 4
    then show ?thesis using net n2 apiCall_error_undefined [of t ms_arg r url meth b w] by auto
  qed
qed blast+

lemmas wrapper_defs = apiGet_def apiPost_def apiDelete_def apiPut_def apiPatch_def

lemma timeout_of_None: "timeout_of None = 60000"
  by (simp add: timeout_of_def)

lemma readable_handed_back: "readable r \<Longrightarrow> handed_back r"
  by (simp add: handed_back_def)

section \<open>The convenience functions: lemmas\<close>

lemma wrappers_handed_back:
  assumes "t \<le> 60000" "handed_back r"
  shows
    "apiGet (Answers t (Inr r)) url w
       = (Return (Response r), intercepted r (sent (Answers t (Inr r)) url ''GET'' JUndefined 60000 w))"
    "apiDelete (Answers t (Inr r)) url w
       = (Return (Response r), intercepted r (sent (Answers t (Inr r)) url ''DELETE'' JUndefined 60000 w))"
    "apiPost (Answers t (Inr r)) url b w
       = (Return (Response r), intercepted r (sent (Answers t (Inr r)) url ''POST'' b 60000 w))"
    "apiPut (Answers t (Inr r)) url b w
       = (Return (Response r), intercepted r (sent (Answers t (Inr r)) url ''PUT'' b 60000 w))"
    "apiPatch (Answers t (Inr r)) url b w
       = (Return (Response r), intercepted r (sent (Answers t (Inr r)) url ''PATCH'' b 60000 w))"
  using assms apiCall_handed_back [of t None r] by (simp_all add: wrapper_defs timeout_of_None)


lemma wrappers_unreadable:
  assumes "t \<le> 60000" "\<not> (200 \<le> reply_status r \<and> reply_status r < 300)"
    "reply_body r = NoBody \<or> (\<exists>s. reply_body r = NotJson s)"
  obtains msg where
    "\<And>url w. apiGet (Answers t (Inr r)) url w
       = (Throw (SyntaxError msg),
          logged (LogError (SyntaxError msg)) (sent (Answers t (Inr r)) url ''GET'' JUndefined 60000 w))"
    "\<And>url w. apiDelete (Answers t (Inr r)) url w
       = (Throw (SyntaxError msg),
          logged (LogError (SyntaxError msg)) (sent (Answers t (Inr r)) url ''DELETE'' JUndefined 60000 w))"
    "\<And>url b w. apiPost (Answers t (Inr r)) url b w
       = (Throw (SyntaxError msg),
          logged (LogError (SyntaxError msg)) (sent (Answers t (Inr r)) url ''POST'' b 60000 w))"
proof -
  from assms(3) obtain s where b: "reply_body r = NoBody \<or> reply_body r = NotJson s" by blast
  let ?msg = "if reply_body r = NoBody then ''Unexpected end of JSON input'' else ''Unexpected token''"
  have "\<And>url meth b w. apiCall (Answers t (Inr r)) url meth b None w
      = (Throw (SyntaxError ?msg),
         logged (LogError (SyntaxError ?msg)) (sent (Answers t (Inr r)) url meth b 60000 w))"
    using apiCall_error_not_json [of t None r s] assms(1,2) b by (simp add: timeout_of_None)
  then show ?thesis using that [of ?msg] by (simp add: wrapper_defs)
qed

lemmas handed_back_simps = wrappers_handed_back

section \<open>Claims about the guarded executor\<close>

text \<open>
  C1. A call with timeout \<open>T\<close> (60000 ms when none is given) whose fetch has not settled
  within \<open>T\<close> is rejected with the timeout error: the callback of its timer has run. A
  call whose fetch settles before \<open>T\<close>, with a value or with a rejection, never throws or
  logs the timeout error, and a rejection of the fetch is what the call throws: the timer is
  cleared when the fetch settles, so that its callback never runs, although the timer comes
  due afterwards. In every case the timer the call has set, of delay \<open>T\<close>, is no longer
  pending when the call is over.
\<close>

theorem apiCall_timeout_race:
  "(net = NoAnswer \<or> (\<exists>t out. net = Answers t out \<and> timeout_of ms_arg < t)
      \<longrightarrow> fst (apiCall net url meth b ms_arg w) = Throw (Error ''promise timeout'')
        \<and> fired (snd (apiCall net url meth b ms_arg w)) = fired w @ [next_timer w])
   \<and> ((\<exists>t out. net = Answers t out \<and> t < timeout_of ms_arg)
      \<longrightarrow> fst (apiCall net url meth b ms_arg w) \<noteq> Throw (Error ''promise timeout'')
        \<and> LogError (Error ''promise timeout'')
             \<notin> set (drop (length (console w)) (console (snd (apiCall net url meth b ms_arg w))))
        \<and> fired (snd (apiCall net url meth b ms_arg w)) = fired w)
   \<and> (\<forall>t reason. net = Answers t (Inl reason) \<and> t < timeout_of ms_arg
      \<longrightarrow> fst (apiCall net url meth b ms_arg w) = Throw (FetchError reason))
   \<and> next_timer w \<notin> set (timers (snd (apiCall net url meth b ms_arg w)))
   \<and> delays (snd (apiCall net url meth b ms_arg w)) = delays w @ [timeout_of ms_arg]
   \<and> timeout_of None = 60000 \<and> timeout_of (Some ms) = ms"
proof -
  have "timeout_of None = 60000 \<and> timeout_of (Some ms) = ms"
    by (simp add: timeout_of_def)
  moreover have "next_timer w \<notin> set (timers (snd (apiCall net url meth b ms_arg w)))
      \<and> delays (snd (apiCall net url meth b ms_arg w)) = delays w @ [timeout_of ms_arg]"
    by (simp add: apiCall_timer)
  moreover have "fst (apiCall net url meth b ms_arg w) = Throw (Error ''promise timeout'')
        \<and> fired (snd (apiCall net url meth b ms_arg w)) = fired w @ [next_timer w]"
    if "net = NoAnswer \<or> (\<exists>t out. net = Answers t out \<and> timeout_of ms_arg < t)"
    using that apiCall_no_answer [of url meth b ms_arg w] apiCall_late [of ms_arg _ _ url meth b w]
    by (auto simp: apiCall_timer timer_fires_def)
  moreover have "fst (apiCall net url meth b ms_arg w) \<noteq> Throw (Error ''promise timeout'')
        \<and> LogError (Error ''promise timeout'')
             \<notin> set (drop (length (console w)) (console (snd (apiCall net url meth b ms_arg w))))
        \<and> fired (snd (apiCall net url meth b ms_arg w)) = fired w"
    if early: "\<exists>t out. net = Answers t out \<and> t < timeout_of ms_arg"
  proof (rule apiCall_cases [of net url meth b ms_arg w])
  qed (use early in \<open>auto simp: world_simps timer_fires_def\<close>)
  moreover have "fst (apiCall net url meth b ms_arg w) = Throw (FetchError reason)"
    if "net = Answers t (Inl reason) \<and> t < timeout_of ms_arg" for t reason
    using that apiCall_rejected [of t ms_arg reason url meth b w] by simp
  ultimately show ?thesis by blast
qed

theorem apiCall_timeout_race_witness:
  "fst (apiCall NoAnswer ''/api/status'' ''GET'' JUndefined None empty_world)
     = Throw (Error ''promise timeout'')
   \<and> fired (snd (apiCall NoAnswer ''/api/status'' ''GET'' JUndefined None empty_world)) = [0]
   \<and> fst (apiCall (Answers 60001 (Inr ok_reply)) ''/api/status'' ''GET'' JUndefined None empty_world)
     = Throw (Error ''promise timeout'')
   \<and> fst (apiCall (Answers 2000 (Inr ok_reply)) ''/api/status'' ''GET'' JUndefined (Some 1500) empty_world)
     = Throw (Error ''promise timeout'')
   \<and> fst (apiCall (Answers 59999 (Inr ok_reply)) ''/api/status'' ''GET'' JUndefined None empty_world)
     \<noteq> Throw (Error ''promise timeout'')
   \<and> fired (snd (apiCall (Answers 59999 (Inr ok_reply)) ''/api/status'' ''GET'' JUndefined None empty_world))
     = []
   \<and> fst (apiCall (Answers 59999 (Inl ''Failed to fetch'')) ''/api/status'' ''GET'' JUndefined None empty_world)
     = Throw (FetchError ''Failed to fetch'')
   \<and> fired (snd (apiCall (Answers 59999 (Inl ''Failed to fetch'')) ''/api/status'' ''GET'' JUndefined None
        empty_world)) = []
   \<and> timers (snd (apiCall NoAnswer ''/api/status'' ''GET'' JUndefined None empty_world)) = []"
  using apiCall_timeout_race [of NoAnswer None "''/api/status''" "''GET''" JUndefined empty_world 0]
    apiCall_timeout_race [of "Answers 60001 (Inr ok_reply)" None "''/api/status''" "''GET''" JUndefined empty_world 0]
    apiCall_timeout_race [of "Answers 2000 (Inr ok_reply)" "Some 1500" "''/api/status''" "''GET''" JUndefined empty_world 0]
    apiCall_timeout_race [of "Answers 59999 (Inr ok_reply)" None "''/api/status''" "''GET''" JUndefined empty_world 0]
    apiCall_timeout_race [of "Answers 59999 (Inl ''Failed to fetch'')" None "''/api/status''" "''GET''" JUndefined empty_world 0]
  by (simp add: timeout_of_def apiCall_timer empty_world_def)

text \<open>
  C3. A response that arrives before the timeout with a status in [200, 300) is returned as
  \<^verbatim>\<open>fetch\<close> resolved it: its body is not read, no notification is raised, nothing is
  logged and nothing is thrown.
\<close>

theorem apiCall_success_passthrough:
  "t < timeout_of ms_arg \<Longrightarrow> 200 \<le> reply_status r \<Longrightarrow> reply_status r < 300 \<Longrightarrow>
   fst (apiCall (Answers t (Inr r)) url meth b ms_arg w)
     = Return \<lparr>status = reply_status r, body = reply_body r, bodyUsed = False\<rparr>
   \<and> toasts (snd (apiCall (Answers t (Inr r)) url meth b ms_arg w)) = toasts w
   \<and> console (snd (apiCall (Answers t (Inr r)) url meth b ms_arg w)) = console w"
  using apiCall_success [of t ms_arg r url meth b w]
  by (simp add: Response_def world_simps)

theorem apiCall_success_passthrough_witness:
  "(100::nat) < timeout_of None \<and> (200::int) \<le> reply_status ok_reply \<and> reply_status ok_reply < 300
   \<and> fst (apiCall (Answers 100 (Inr ok_reply)) ''/api/status'' ''GET'' JUndefined None empty_world)
     = Return \<lparr>status = 200, body = Json (JObj [(''version'', JStr ''1'')]), bodyUsed = False\<rparr>
   \<and> toasts (snd (apiCall (Answers 100 (Inr ok_reply)) ''/api/status'' ''GET'' JUndefined None empty_world)) = []
   \<and> console (snd (apiCall (Answers 100 (Inr ok_reply)) ''/api/status'' ''GET'' JUndefined None empty_world)) = []"
  using apiCall_success_passthrough [of 100 None ok_reply "''/api/status''" "''GET''" JUndefined empty_world]
  by (simp add: timeout_of_def ok_reply_def empty_world_def)




text \<open>
  C4, as the code has it. A non-2xx response that arrives before the timeout is returned,
  with its body unread, when its body is JSON and not \<^verbatim>\<open>null\<close>. When the body is
  missing or is not JSON, the \<^verbatim>\<open>SyntaxError\<close> of parsing it is logged and thrown by
  \<open>apiCall\<close>; a body that is the JSON \<^verbatim>\<open>null\<close> gives a \<^verbatim>\<open>TypeError\<close>
  in the same way.
\<close>

theorem apiCall_error_body:
  assumes "t < timeout_of ms_arg" "\<not> (200 \<le> reply_status r \<and> reply_status r < 300)"
  shows "(readable r \<longrightarrow>
            fst (apiCall (Answers t (Inr r)) url meth b ms_arg w)
              = Return \<lparr>status = reply_status r, body = reply_body r, bodyUsed = False\<rparr>)
       \<and> (reply_body r = NoBody \<or> (\<exists>s. reply_body r = NotJson s) \<longrightarrow>
            (\<exists>msg. fst (apiCall (Answers t (Inr r)) url meth b ms_arg w) = Throw (SyntaxError msg)
              \<and> console (snd (apiCall (Answers t (Inr r)) url meth b ms_arg w))
                  = console w @ [LogError (SyntaxError msg)]))
       \<and> (reply_body r = Json JNull \<longrightarrow>
            (\<exists>msg. fst (apiCall (Answers t (Inr r)) url meth b ms_arg w) = Throw (TypeError msg)
              \<and> console (snd (apiCall (Answers t (Inr r)) url meth b ms_arg w))
                  = console w @ [LogError (TypeError msg)]))"
proof (intro conjI impI)
  assume "readable r"
  then have "handed_back r" by (simp add: handed_back_def)
  then show "fst (apiCall (Answers t (Inr r)) url meth b ms_arg w)
              = Return \<lparr>status = reply_status r, body = reply_body r, bodyUsed = False\<rparr>"
    using assms(1) by (simp add: apiCall_handed_back Response_def)
next
  assume "reply_body r = NoBody \<or> (\<exists>s. reply_body r = NotJson s)"
  then obtain s where "reply_body r = NoBody \<or> reply_body r = NotJson s" by blast
  from apiCall_error_not_json [OF less_imp_le [OF assms(1)] assms(2) this, of url meth b w]
  show "\<exists>msg. fst (apiCall (Answers t (Inr r)) url meth b ms_arg w) = Throw (SyntaxError msg)
              \<and> console (snd (apiCall (Answers t (Inr r)) url meth b ms_arg w))
                  = console w @ [LogError (SyntaxError msg)]"
    by (simp add: world_simps)
next
  assume "reply_body r = Json JNull"
  from apiCall_error_null [OF less_imp_le [OF assms(1)] assms(2) this, of url meth b w]
  show "\<exists>msg. fst (apiCall (Answers t (Inr r)) url meth b ms_arg w) = Throw (TypeError msg)
              \<and> console (snd (apiCall (Answers t (Inr r)) url meth b ms_arg w))
                  = console w @ [LogError (TypeError msg)]"
    by (simp add: world_simps)
qed

theorem apiCall_error_body_witness:
  "fst (apiCall (Answers 100 (Inr server_error)) ''/api/status'' ''GET'' JUndefined None empty_world)
     = Return \<lparr>status = 500,
         body = Json (JObj [(''code'', JNum 1), (''message'', JStr ''Internal error'')]),
         bodyUsed = False\<rparr>
   \<and> (\<exists>msg. fst (apiCall (Answers 100 (Inr bad_gateway)) ''/api/status'' ''GET'' JUndefined None empty_world)
          = Throw (SyntaxError msg))
   \<and> (\<exists>msg. fst (apiCall (Answers 100 (Inr \<lparr>reply_status = 404, reply_body = Json JNull\<rparr>))
          ''/api/status'' ''GET'' JUndefined None empty_world) = Throw (TypeError msg))"
  using apiCall_error_body [of 100 None server_error "''/api/status''" "''GET''" JUndefined empty_world]
    apiCall_error_body [of 100 None bad_gateway "''/api/status''" "''GET''" JUndefined empty_world]
    apiCall_error_body [of 100 None "\<lparr>reply_status = 404, reply_body = Json JNull\<rparr>"
       "''/api/status''" "''GET''" JUndefined empty_world]
  by (auto simp: timeout_of_def server_error_def bad_gateway_def readable_def)

text \<open>
  C4, as stated, fails: a 502 with an HTML body and a 500 with no body make \<open>apiCall\<close>
  throw instead of returning the response.
\<close>

theorem apiCall_unreadable_body_counterexample:
  "fst (apiCall (Answers 100 (Inr bad_gateway)) ''/api/status'' ''GET'' JUndefined None empty_world)
     = Throw (SyntaxError ''Unexpected token'')
   \<and> fst (apiCall (Answers 100 (Inr \<lparr>reply_status = 500, reply_body = NoBody\<rparr>))
          ''/api/status'' ''GET'' JUndefined None empty_world)
     = Throw (SyntaxError ''Unexpected end of JSON input'')"
  by (simp add: apiCall_error_not_json timeout_of_def bad_gateway_def)

section \<open>The operation functions: lemmas\<close>

lemma get_prop_property:
  "v \<noteq> JUndefined \<Longrightarrow> v \<noteq> JNull \<Longrightarrow> get_prop v k = return (property v k)"
  by (cases v) (simp_all add: property_def)

lemma delete_prop_defined:
  "v \<noteq> JUndefined \<Longrightarrow> v \<noteq> JNull \<Longrightarrow>
   delete_prop v k = return (case v of JObj kvs \<Rightarrow> JObj (filter (\<lambda>kv. fst kv \<noteq> k) kvs) | _ \<Rightarrow> v)"
  by (cases v) simp_all

lemma json_Response:
  "reply_body r = Json v \<Longrightarrow> json (Response r) = return (v, (Response r)\<lparr>bodyUsed := True\<rparr>)"
  by (simp add: json_def Response_def)

lemma status_Response: "status (Response r) = reply_status r"
  by (simp add: Response_def)

lemmas op_simps = prog_defs Let_def status_Response world_simps

lemma array_join_JArr: "array_join (JArr xs) = return (js_join xs)"
  by simp

lemmas op_args = get_prop_property delete_prop_defined array_join_JArr

lemmas op_defs =
  updateChannel_def createChannel_def deleteChannel_def getChannels_def getChannel_def
  searchVideos_def getVideo_def deleteVideos_def getDirectories_def getStatus_def
  getSettings_def saveSettings_def getDownloads_def validateRegex_def getVideosStatistics_def
  downloadChannel_def encryptOTP_def decryptOTP_def getCategories_def getBrands_def
  getInventories_def getInventory_def saveInventory_def updateInventory_def
  deleteInventory_def getItems_def saveItem_def updateItem_def deleteItems_def
  deleteArchives_def searchArchives_def fetchDomains_def getArchive_def postDownload_def
  killDownload_def killDownloads_def startDownloads_def getDownloaders_def deleteDownload_def
  filesSearch_def refreshFiles_def refreshDirectoryFiles_def getFiles_def deleteFile_def
  fetchFilesProgress_def getHotspotStatus_def setHotspot_def getThrottleStatus_def
  setThrottle_def getMapImportStatus_def importMapFiles_def clearCompletedDownloads_def
  clearFailedDownloads_def getStatistics_def getEvents_def getTags_def addTag_def
  removeTag_def saveTag_def deleteTag_def fetchFile_def sendNotification_def
  searchDirectories_def

section \<open>Claims about the operation functions\<close>

text \<open>
  C5, as the code has it. The functions that return a list, a pair or a parsed listing are
  \<open>getChannels\<close>, \<open>searchVideos\<close>, \<open>getDirectories\<close>, \<open>getDownloads\<close>,
  \<open>getCategories\<close>, \<open>getBrands\<close>, \<open>getInventories\<close>, \<open>getItems\<close>,
  \<open>searchArchives\<close>, \<open>fetchDomains\<close>, \<open>getDownloaders\<close>, \<open>filesSearch\<close>,
  \<open>getFiles\<close>, \<open>getEvents\<close>, \<open>getTags\<close> and \<open>searchDirectories\<close>. The response
  arrives before the timeout and its status is not 200.

  When the executor hands it back (a 2xx status, or a non-2xx status with a JSON body other
  than \<^verbatim>\<open>null\<close>), the functions that test the status do not throw: \<open>searchVideos\<close> and
  \<open>searchArchives\<close> return \<^verbatim>\<open>[[], 0]\<close>, \<open>getDirectories\<close> returns \<^verbatim>\<open>[]\<close>,
  \<open>filesSearch\<close> returns \<^verbatim>\<open>[null, null]\<close>, \<open>searchDirectories\<close> returns \<^verbatim>\<open>[]\<close> on
  a 204 and \<^verbatim>\<open>undefined\<close> otherwise, and \<open>getChannels\<close>, \<open>getCategories\<close>,
  \<open>getBrands\<close>, \<open>getInventories\<close>, \<open>fetchDomains\<close>, \<open>getTags\<close>, \<open>getDownloads\<close>
  and \<open>getEvents\<close> return \<^verbatim>\<open>undefined\<close>.

  \<open>getItems\<close>, \<open>getFiles\<close> and \<open>getDownloaders\<close> do not test the status: on a non-2xx
  status with a JSON body other than \<^verbatim>\<open>null\<close> they return the parsed error body,
  \<open>getFiles\<close> its \<open>files\<close> property.

  When the status is not 2xx and the body is absent or is not JSON, the
  \<^verbatim>\<open>SyntaxError\<close> of the executor is thrown by every one of them but
  \<open>getDownloaders\<close>, which catches it and returns \<^verbatim>\<open>{downloaders: []}\<close>.
\<close>

theorem list_defaults:
  assumes "t < 60000" "reply_status r \<noteq> 200"
  shows
    "(handed_back r \<longrightarrow>
        fst (searchVideos c (Answers t (Inr r)) offset limit channelId searchStr order_by tagNames headline w)
          = Return (JArr [JArr [], JNum 0])
      \<and> fst (searchArchives c (Answers t (Inr r)) offset limit domain searchStr order_by tagNames headline w)
          = Return (JArr [JArr [], JNum 0])
      \<and> fst (getDirectories c (Answers t (Inr r)) search_str w) = Return (JArr [])
      \<and> fst (filesSearch c (Answers t (Inr r)) offset limit searchStr mimetypes model tagNames headline w)
          = Return (JArr [JNull, JNull])
      \<and> fst (getChannels c (Answers t (Inr r)) w) = Return JUndefined
      \<and> fst (getCategories c (Answers t (Inr r)) w) = Return JUndefined
      \<and> fst (getBrands c (Answers t (Inr r)) w) = Return JUndefined
      \<and> fst (getInventories c (Answers t (Inr r)) w) = Return JUndefined
      \<and> fst (fetchDomains c (Answers t (Inr r)) w) = Return JUndefined
      \<and> fst (getTags c (Answers t (Inr r)) w) = Return JUndefined
      \<and> fst (getDownloads c (Answers t (Inr r)) w) = Return JUndefined
      \<and> fst (getEvents c (Answers t (Inr r)) after w) = Return JUndefined
      \<and> fst (searchDirectories c (Answers t (Inr r)) name w)
          = Return (if reply_status r = 204 then JArr [] else JUndefined))
   \<and> (readable r \<and> \<not> (200 \<le> reply_status r \<and> reply_status r < 300) \<longrightarrow>
        fst (getItems c (Answers t (Inr r)) inventoryId w) = Return (body_value r)
      \<and> fst (getFiles c (Answers t (Inr r)) directories w)
          = Return (property (body_value r) ''files'')
      \<and> fst (getDownloaders c (Answers t (Inr r)) w) = Return (body_value r))
   \<and> (\<not> (200 \<le> reply_status r \<and> reply_status r < 300)
        \<and> (reply_body r = NoBody \<or> (\<exists>s. reply_body r = NotJson s)) \<longrightarrow>
        (\<exists>msg.
           fst (searchVideos c (Answers t (Inr r)) offset limit channelId searchStr order_by tagNames headline w)
             = Throw (SyntaxError msg)
         \<and> fst (searchArchives c (Answers t (Inr r)) offset limit domain searchStr order_by tagNames headline w)
             = Throw (SyntaxError msg)
         \<and> fst (getDirectories c (Answers t (Inr r)) search_str w) = Throw (SyntaxError msg)
         \<and> fst (filesSearch c (Answers t (Inr r)) offset limit searchStr mimetypes model tagNames headline w)
             = Throw (SyntaxError msg)
         \<and> fst (getChannels c (Answers t (Inr r)) w) = Throw (SyntaxError msg)
         \<and> fst (getCategories c (Answers t (Inr r)) w) = Throw (SyntaxError msg)
         \<and> fst (getBrands c (Answers t (Inr r)) w) = Throw (SyntaxError msg)
         \<and> fst (getInventories c (Answers t (Inr r)) w) = Throw (SyntaxError msg)
         \<and> fst (fetchDomains c (Answers t (Inr r)) w) = Throw (SyntaxError msg)
         \<and> fst (getTags c (Answers t (Inr r)) w) = Throw (SyntaxError msg)
         \<and> fst (searchDirectories c (Answers t (Inr r)) name w) = Throw (SyntaxError msg)
         \<and> fst (getItems c (Answers t (Inr r)) inventoryId w) = Throw (SyntaxError msg)
         \<and> fst (getFiles c (Answers t (Inr r)) directories w) = Throw (SyntaxError msg)
         \<and> fst (getDownloads c (Answers t (Inr r)) w) = Throw (SyntaxError msg)
         \<and> fst (getEvents c (Answers t (Inr r)) after w) = Throw (SyntaxError msg))
      \<and> fst (getDownloaders c (Answers t (Inr r)) w) = Return (JObj [(''downloaders'', JArr [])]))"
proof (intro conjI impI)
  have t: "t \<le> 60000" using assms(1) by simp
  {
    assume hb: "handed_back r"
    note facts = t hb assms(2)
    show "fst (searchVideos c (Answers t (Inr r)) offset limit channelId searchStr order_by tagNames headline w)
          = Return (JArr [JArr [], JNum 0])"
      using facts by (simp add: searchVideos_def op_simps handed_back_simps)
    show "fst (searchArchives c (Answers t (Inr r)) offset limit domain searchStr order_by tagNames headline w)
          = Return (JArr [JArr [], JNum 0])"
      using facts by (simp add: searchArchives_def op_simps handed_back_simps)
    show "fst (getDirectories c (Answers t (Inr r)) search_str w) = Return (JArr [])"
      using facts by (simp add: getDirectories_def op_simps handed_back_simps)
    show "fst (filesSearch c (Answers t (Inr r)) offset limit searchStr mimetypes model tagNames headline w)
          = Return (JArr [JNull, JNull])"
      using facts by (simp add: filesSearch_def op_simps handed_back_simps)
    show "fst (getChannels c (Answers t (Inr r)) w) = Return JUndefined"
      using facts by (simp add: getChannels_def op_simps handed_back_simps)
    show "fst (getCategories c (Answers t (Inr r)) w) = Return JUndefined"
      using facts by (simp add: getCategories_def op_simps handed_back_simps)
    show "fst (getBrands c (Answers t (Inr r)) w) = Return JUndefined"
      using facts by (simp add: getBrands_def op_simps handed_back_simps)
    show "fst (getInventories c (Answers t (Inr r)) w) = Return JUndefined"
      using facts by (simp add: getInventories_def op_simps handed_back_simps)
    show "fst (fetchDomains c (Answers t (Inr r)) w) = Return JUndefined"
      using facts by (simp add: fetchDomains_def op_simps handed_back_simps)
    show "fst (getTags c (Answers t (Inr r)) w) = Return JUndefined"
      using facts by (simp add: getTags_def op_simps handed_back_simps)
    show "fst (getDownloads c (Answers t (Inr r)) w) = Return JUndefined"
      using facts by (simp add: getDownloads_def op_simps handed_back_simps)
    show "fst (getEvents c (Answers t (Inr r)) after w) = Return JUndefined"
      using facts by (simp add: getEvents_def op_simps handed_back_simps)
    show "fst (searchDirectories c (Answers t (Inr r)) name w)
          = Return (if reply_status r = 204 then JArr [] else JUndefined)"
      using facts by (simp add: searchDirectories_def op_simps handed_back_simps)
  }
  {
    assume rd: "readable r \<and> \<not> (200 \<le> reply_status r \<and> reply_status r < 300)"
    then obtain v where v: "reply_body r = Json v" "v \<noteq> JNull" "v \<noteq> JUndefined"
      by (auto simp: readable_def split: body.splits)
    from rd have hb: "handed_back r" by (simp add: handed_back_def)
    from v have bv: "body_value r = v" by (simp add: body_value_def)
    note facts = t hb v bv
    show "fst (getItems c (Answers t (Inr r)) inventoryId w) = Return (body_value r)"
      using facts by (simp add: getItems_def op_simps op_args handed_back_simps json_Response)
    show "fst (getFiles c (Answers t (Inr r)) directories w)
          = Return (property (body_value r) ''files'')"
      using facts by (simp add: getFiles_def op_simps op_args handed_back_simps json_Response)
    show "fst (getDownloaders c (Answers t (Inr r)) w) = Return (body_value r)"
      using facts by (simp add: getDownloaders_def op_simps op_args handed_back_simps json_Response)
  }
  {
    assume un: "\<not> (200 \<le> reply_status r \<and> reply_status r < 300)
        \<and> (reply_body r = NoBody \<or> (\<exists>s. reply_body r = NotJson s))"
    then obtain msg where
      get: "\<And>url w. apiGet (Answers t (Inr r)) url w
         = (Throw (SyntaxError msg),
            logged (LogError (SyntaxError msg)) (sent (Answers t (Inr r)) url ''GET'' JUndefined 60000 w))"
      and post: "\<And>url b w. apiPost (Answers t (Inr r)) url b w
         = (Throw (SyntaxError msg),
            logged (LogError (SyntaxError msg)) (sent (Answers t (Inr r)) url ''POST'' b 60000 w))"
      using wrappers_unreadable [OF t, of r] by metis
    show "\<exists>msg.
           fst (searchVideos c (Answers t (Inr r)) offset limit channelId searchStr order_by tagNames headline w)
             = Throw (SyntaxError msg)
         \<and> fst (searchArchives c (Answers t (Inr r)) offset limit domain searchStr order_by tagNames headline w)
             = Throw (SyntaxError msg)
         \<and> fst (getDirectories c (Answers t (Inr r)) search_str w) = Throw (SyntaxError msg)
         \<and> fst (filesSearch c (Answers t (Inr r)) offset limit searchStr mimetypes model tagNames headline w)
             = Throw (SyntaxError msg)
         \<and> fst (getChannels c (Answers t (Inr r)) w) = Throw (SyntaxError msg)
         \<and> fst (getCategories c (Answers t (Inr r)) w) = Throw (SyntaxError msg)
         \<and> fst (getBrands c (Answers t (Inr r)) w) = Throw (SyntaxError msg)
         \<and> fst (getInventories c (Answers t (Inr r)) w) = Throw (SyntaxError msg)
         \<and> fst (fetchDomains c (Answers t (Inr r)) w) = Throw (SyntaxError msg)
         \<and> fst (getTags c (Answers t (Inr r)) w) = Throw (SyntaxError msg)
         \<and> fst (searchDirectories c (Answers t (Inr r)) name w) = Throw (SyntaxError msg)
         \<and> fst (getItems c (Answers t (Inr r)) inventoryId w) = Throw (SyntaxError msg)
         \<and> fst (getFiles c (Answers t (Inr r)) directories w) = Throw (SyntaxError msg)
         \<and> fst (getDownloads c (Answers t (Inr r)) w) = Throw (SyntaxError msg)
         \<and> fst (getEvents c (Answers t (Inr r)) after w) = Throw (SyntaxError msg)"
      by (rule exI [of _ msg])
         (simp add: searchVideos_def searchArchives_def getDirectories_def filesSearch_def
            getChannels_def getCategories_def getBrands_def getInventories_def fetchDomains_def
            getTags_def searchDirectories_def getItems_def getFiles_def getDownloads_def
            getEvents_def prog_defs Let_def get post)
    show "fst (getDownloaders c (Answers t (Inr r)) w) = Return (JObj [(''downloaders'', JArr [])])"
      by (simp add: getDownloaders_def prog_defs get)
  }
qed

theorem list_defaults_witness:
  "(100::nat) < 60000 \<and> handed_back server_error \<and> reply_status server_error \<noteq> 200
   \<and> fst (searchVideos sample_common (Answers 100 (Inr server_error)) (JNum 0) (JNum 20) JNull
            (JStr ''cats'') JUndefined JUndefined JUndefined empty_world)
        = Return (JArr [JArr [], JNum 0])
   \<and> fst (searchArchives sample_common (Answers 100 (Inr server_error)) (JNum 0) (JNum 20) JNull
            (JStr ''cats'') JUndefined JUndefined JUndefined empty_world)
        = Return (JArr [JArr [], JNum 0])
   \<and> fst (getDirectories sample_common (Answers 100 (Inr server_error)) (JStr ''vid'') empty_world)
        = Return (JArr [])
   \<and> fst (filesSearch sample_common (Answers 100 (Inr server_error)) (JNum 0) (JNum 20)
            (JStr ''cats'') JUndefined JUndefined JUndefined JUndefined empty_world)
        = Return (JArr [JNull, JNull])
   \<and> fst (getTags sample_common (Answers 100 (Inr server_error)) empty_world) = Return JUndefined
   \<and> fst (searchDirectories sample_common (Answers 100 (Inr server_error)) (JStr ''vid'') empty_world)
        = Return JUndefined
   \<and> readable server_error \<and> \<not> (200 \<le> reply_status server_error \<and> reply_status server_error < 300)
   \<and> fst (getItems sample_common (Answers 100 (Inr server_error)) (JNum 4) empty_world)
        = Return (JObj [(''code'', JNum 1), (''message'', JStr ''Internal error'')])
   \<and> fst (getFiles sample_common (Answers 100 (Inr server_error)) (JArr []) empty_world)
        = Return JUndefined
   \<and> reply_status bad_gateway \<noteq> 200
   \<and> \<not> (200 \<le> reply_status bad_gateway \<and> reply_status bad_gateway < 300)
   \<and> reply_body bad_gateway = NotJson ''<html>502 Bad Gateway</html>''
   \<and> (\<exists>msg. fst (getChannels sample_common (Answers 100 (Inr bad_gateway)) empty_world)
               = Throw (SyntaxError msg)
          \<and> fst (getItems sample_common (Answers 100 (Inr bad_gateway)) (JNum 4) empty_world)
               = Throw (SyntaxError msg))
   \<and> fst (getDownloaders sample_common (Answers 100 (Inr bad_gateway)) empty_world)
        = Return (JObj [(''downloaders'', JArr [])])
   \<and> (\<exists>msg. fst (getDirectories sample_common
                 (Answers 100 (Inr \<lparr>reply_status = 404, reply_body = NoBody\<rparr>)) (JStr ''vid'') empty_world)
               = Throw (SyntaxError msg))"
  using list_defaults [where t = 100 and r = server_error and c = sample_common and w = empty_world
      and offset = "JNum 0" and limit = "JNum 20" and channelId = JNull and domain = JNull
      and searchStr = "JStr ''cats''" and order_by = JUndefined and tagNames = JUndefined
      and headline = JUndefined and mimetypes = JUndefined and model = JUndefined
      and search_str = "JStr ''vid''" and name = "JStr ''vid''" and inventoryId = "JNum 4"
      and directories = "JArr []" and after = JUndefined]
    list_defaults [where t = 100 and r = bad_gateway and c = sample_common and w = empty_world
      and offset = "JNum 0" and limit = "JNum 20" and channelId = JNull and domain = JNull
      and searchStr = "JStr ''cats''" and order_by = JUndefined and tagNames = JUndefined
      and headline = JUndefined and mimetypes = JUndefined and model = JUndefined
      and search_str = "JStr ''vid''" and name = "JStr ''vid''" and inventoryId = "JNum 4"
      and directories = "JArr []" and after = JUndefined]
    list_defaults [where t = 100 and r = "\<lparr>reply_status = 404, reply_body = NoBody\<rparr>"
      and c = sample_common and w = empty_world
      and offset = "JNum 0" and limit = "JNum 20" and channelId = JNull and domain = JNull
      and searchStr = "JStr ''cats''" and order_by = JUndefined and tagNames = JUndefined
      and headline = JUndefined and mimetypes = JUndefined and model = JUndefined
      and search_str = "JStr ''vid''" and name = "JStr ''vid''" and inventoryId = "JNum 4"
      and directories = "JArr []" and after = JUndefined]
  by (auto simp: handed_back_def readable_def server_error_def bad_gateway_def body_value_def
      property_def)

text \<open>
  C5, as stated, fails: on a 500 with a JSON body \<open>filesSearch\<close> returns
  \<^verbatim>\<open>[null, null]\<close> and \<open>getChannels\<close> returns \<^verbatim>\<open>undefined\<close>, and on a 502 with
  an HTML body \<open>searchVideos\<close> throws.
\<close>

theorem list_defaults_counterexample:
  "fst (filesSearch sample_common (Answers 100 (Inr server_error)) (JNum 0) (JNum 20)
          (JStr ''cats'') JUndefined JUndefined JUndefined JUndefined empty_world)
     = Return (JArr [JNull, JNull])
   \<and> fst (getChannels sample_common (Answers 100 (Inr server_error)) empty_world) = Return JUndefined
   \<and> fst (searchVideos sample_common (Answers 100 (Inr bad_gateway)) (JNum 0) (JNum 20) JNull
            (JStr ''cats'') JUndefined JUndefined JUndefined empty_world)
     = Throw (SyntaxError ''Unexpected token'')"
proof -
  have hb: "handed_back server_error"
    by (simp add: handed_back_def readable_def server_error_def)
  have ne: "reply_status server_error \<noteq> 200"
    by (simp add: server_error_def)
  have t: "(100::nat) \<le> 60000" by simp
  have "apiPost (Answers 100 (Inr bad_gateway)) url b w
      = (Throw (SyntaxError ''Unexpected token''),
         logged (LogError (SyntaxError ''Unexpected token''))
           (sent (Answers 100 (Inr bad_gateway)) url ''POST'' b 60000 w))" for url b w
    using apiCall_error_not_json [of 100 None bad_gateway "''<html>502 Bad Gateway</html>''" url "''POST''" b w]
    by (simp add: apiPost_def timeout_of_None bad_gateway_def)
  then have "fst (searchVideos sample_common (Answers 100 (Inr bad_gateway)) (JNum 0) (JNum 20) JNull
            (JStr ''cats'') JUndefined JUndefined JUndefined empty_world)
     = Throw (SyntaxError ''Unexpected token'')"
    by (simp add: searchVideos_def prog_defs Let_def split del: if_split)
  then show ?thesis
    using hb ne t
    by (simp add: filesSearch_def getChannels_def op_simps handed_back_simps)
qed

text \<open>
  C6. On a 200 response that arrives before the timeout with the JSON body
  \<^verbatim>\<open>{file_groups: [...], totals: {file_groups: N}}\<close>, each of \<open>searchVideos\<close>,
  \<open>searchArchives\<close> and \<open>filesSearch\<close> returns the pair of the \<open>file_groups\<close> array
  and \<open>N\<close>.
\<close>

theorem search_envelope:
  assumes "t < 60000" "reply_status r = 200" "reply_body r = Json (JObj kvs)"
    "map_of kvs ''file_groups'' = Some (JArr file_groups)"
    "map_of kvs ''totals'' = Some (JObj totals)"
    "map_of totals ''file_groups'' = Some (JNum n)"
  shows "fst (searchVideos c (Answers t (Inr r)) offset limit channelId searchStr order_by tagNames headline w)
           = Return (JArr [JArr file_groups, JNum n])
       \<and> fst (searchArchives c (Answers t (Inr r)) offset limit domain searchStr order_by tagNames headline w)
           = Return (JArr [JArr file_groups, JNum n])
       \<and> fst (filesSearch c (Answers t (Inr r)) offset limit searchStr mimetypes model tagNames headline w)
           = Return (JArr [JArr file_groups, JNum n])"
proof -
  have "handed_back r" using assms(2) by (simp add: handed_back_def)
  then show ?thesis using assms
    by (simp add: op_defs prog_defs handed_back_simps Response_def json_def Let_def split del: if_split)
qed

theorem search_envelope_witness:
  "(100::nat) < 60000 \<and> reply_status search_reply = 200
   \<and> fst (searchVideos sample_common (Answers 100 (Inr search_reply))
          (JNum 0) (JNum 20) JNull (JStr ''cats'') JUndefined JUndefined JUndefined empty_world)
     = Return (JArr [JArr [JObj [(''id'', JNum 7)], JObj [(''id'', JNum 9)]], JNum 42])
   \<and> fst (searchArchives sample_common (Answers 100 (Inr search_reply))
          (JNum 0) (JNum 20) JNull (JStr ''cats'') JUndefined JUndefined JUndefined empty_world)
     = Return (JArr [JArr [JObj [(''id'', JNum 7)], JObj [(''id'', JNum 9)]], JNum 42])
   \<and> fst (filesSearch sample_common (Answers 100 (Inr search_reply))
          (JNum 0) (JNum 20) (JStr ''cats'') JUndefined JUndefined JUndefined JUndefined empty_world)
     = Return (JArr [JArr [JObj [(''id'', JNum 7)], JObj [(''id'', JNum 9)]], JNum 42])"
  using search_envelope [where t = 100 and r = search_reply
      and kvs = "[(''file_groups'', JArr [JObj [(''id'', JNum 7)], JObj [(''id'', JNum 9)]]),
                  (''totals'', JObj [(''file_groups'', JNum 42)])]"
      and file_groups = "[JObj [(''id'', JNum 7)], JObj [(''id'', JNum 9)]]"
      and totals = "[(''file_groups'', JNum 42)]" and n = 42
      and c = sample_common and w = empty_world
      and offset = "JNum 0" and limit = "JNum 20" and channelId = JNull and domain = JNull
      and searchStr = "JStr ''cats''" and order_by = JUndefined and tagNames = JUndefined
      and headline = JUndefined and mimetypes = JUndefined and model = JUndefined]
  by (simp add: search_reply_def)

text \<open>
  C9. \<open>postDownload\<close> with a missing or falsy \<open>downloader\<close> raises one error
  notification and throws; nothing else changes: no request is handed to \<^verbatim>\<open>fetch\<close>,
  no timer is set, nothing is logged.
\<close>

theorem postDownload_requires_downloader:
  assumes "\<not> truthy downloader"
  shows "postDownload c net urls downloader frequency sub_downloader excludedURLs destination tagNames w
       = (Throw (Error ''downloader is required, but was not provided''),
          w\<lparr>toasts := toasts w @
             [\<lparr>toast_type = ''error'', title = ''Failed to submit download'',
               description = ''downloader is required, but was not provided'', time = 5000\<rparr>]\<rparr>)"
  using assms by (simp add: postDownload_def prog_defs error_toast_def)

theorem postDownload_requires_downloader_witness:
  "\<not> truthy JUndefined \<and> \<not> truthy (JStr '''')
   \<and> fst (postDownload sample_common (Answers 100 (Inr ok_reply)) (JArr [JStr ''https://example.com''])
        JUndefined JUndefined JUndefined JUndefined JUndefined JUndefined empty_world)
       = Throw (Error ''downloader is required, but was not provided'')
   \<and> fetched (snd (postDownload sample_common (Answers 100 (Inr ok_reply)) (JArr [JStr ''https://example.com''])
        (JStr '''') JUndefined JUndefined JUndefined JUndefined JUndefined empty_world)) = []
   \<and> length (toasts (snd (postDownload sample_common (Answers 100 (Inr ok_reply)) (JArr [JStr ''https://example.com''])
        (JStr '''') JUndefined JUndefined JUndefined JUndefined JUndefined empty_world))) = 1"
  using postDownload_requires_downloader [of JUndefined sample_common "Answers 100 (Inr ok_reply)"
      "JArr [JStr ''https://example.com'']" JUndefined JUndefined JUndefined JUndefined JUndefined empty_world]
    postDownload_requires_downloader [of "JStr ''''" sample_common "Answers 100 (Inr ok_reply)"
      "JArr [JStr ''https://example.com'']" JUndefined JUndefined JUndefined JUndefined JUndefined empty_world]
  by (simp add: empty_world_def)

text \<open>
  C10, as the code has it. On a 200 response with a JSON object body, \<open>getHotspotStatus\<close>
  and \<open>getThrottleStatus\<close> return its \<open>hotspot_status\<close> and \<open>throttle_status\<close>. On a
  response with another status that the executor hands back (a 2xx status, or a non-2xx
  status with a JSON body other than \<^verbatim>\<open>null\<close>), \<open>getSettings\<close> returns
  \<^verbatim>\<open>undefined\<close> and both functions throw a \<^verbatim>\<open>TypeError\<close>. On a non-2xx status with
  a body that is absent or is not JSON, \<open>getSettings\<close> throws the \<^verbatim>\<open>SyntaxError\<close> of
  the executor, and so do both functions. The response arrives before the timeout.
\<close>

theorem status_getters:
  assumes "t < 60000"
  shows "(reply_status r = 200 \<and> reply_body r = Json (JObj kvs) \<longrightarrow>
            fst (getHotspotStatus c (Answers t (Inr r)) w)
              = Return (case map_of kvs ''hotspot_status'' of None \<Rightarrow> JUndefined | Some v \<Rightarrow> v)
          \<and> fst (getThrottleStatus c (Answers t (Inr r)) w)
              = Return (case map_of kvs ''throttle_status'' of None \<Rightarrow> JUndefined | Some v \<Rightarrow> v))
       \<and> (reply_status r \<noteq> 200 \<and> handed_back r \<longrightarrow>
            fst (getSettings c (Answers t (Inr r)) w) = Return JUndefined
          \<and> fst (getHotspotStatus c (Answers t (Inr r)) w)
              = Throw (TypeError ''Cannot read properties of undefined'')
          \<and> fst (getThrottleStatus c (Answers t (Inr r)) w)
              = Throw (TypeError ''Cannot read properties of undefined''))
       \<and> (\<not> (200 \<le> reply_status r \<and> reply_status r < 300)
            \<and> (reply_body r = NoBody \<or> (\<exists>s. reply_body r = NotJson s)) \<longrightarrow>
            (\<exists>msg. fst (getSettings c (Answers t (Inr r)) w) = Throw (SyntaxError msg)
               \<and> fst (getHotspotStatus c (Answers t (Inr r)) w) = Throw (SyntaxError msg)
               \<and> fst (getThrottleStatus c (Answers t (Inr r)) w) = Throw (SyntaxError msg)))"
proof (intro conjI impI)
  have t: "t \<le> 60000" using assms by simp
  {
    assume ok: "reply_status r = 200 \<and> reply_body r = Json (JObj kvs)"
    then have hb: "handed_back r" by (simp add: handed_back_def)
    show "fst (getHotspotStatus c (Answers t (Inr r)) w)
          = Return (case map_of kvs ''hotspot_status'' of None \<Rightarrow> JUndefined | Some v \<Rightarrow> v)"
      using t ok hb
      by (simp add: getHotspotStatus_def getSettings_def op_simps handed_back_simps json_Response)
    show "fst (getThrottleStatus c (Answers t (Inr r)) w)
          = Return (case map_of kvs ''throttle_status'' of None \<Rightarrow> JUndefined | Some v \<Rightarrow> v)"
      using t ok hb
      by (simp add: getThrottleStatus_def getSettings_def op_simps handed_back_simps json_Response)
  }
  {
    assume err: "reply_status r \<noteq> 200 \<and> handed_back r"
    show "fst (getSettings c (Answers t (Inr r)) w) = Return JUndefined"
      using t err by (simp add: getSettings_def op_simps handed_back_simps)
    show "fst (getHotspotStatus c (Answers t (Inr r)) w)
          = Throw (TypeError ''Cannot read properties of undefined'')"
      using t err by (simp add: getHotspotStatus_def getSettings_def op_simps handed_back_simps)
    show "fst (getThrottleStatus c (Answers t (Inr r)) w)
          = Throw (TypeError ''Cannot read properties of undefined'')"
      using t err by (simp add: getThrottleStatus_def getSettings_def op_simps handed_back_simps)
  }
  {
    assume un: "\<not> (200 \<le> reply_status r \<and> reply_status r < 300)
        \<and> (reply_body r = NoBody \<or> (\<exists>s. reply_body r = NotJson s))"
    then obtain msg where
      get: "\<And>url w. apiGet (Answers t (Inr r)) url w
         = (Throw (SyntaxError msg),
            logged (LogError (SyntaxError msg)) (sent (Answers t (Inr r)) url ''GET'' JUndefined 60000 w))"
      using wrappers_unreadable [OF t, of r] by metis
    show "\<exists>msg. fst (getSettings c (Answers t (Inr r)) w) = Throw (SyntaxError msg)
               \<and> fst (getHotspotStatus c (Answers t (Inr r)) w) = Throw (SyntaxError msg)
               \<and> fst (getThrottleStatus c (Answers t (Inr r)) w) = Throw (SyntaxError msg)"
      by (rule exI [of _ msg])
         (simp add: getHotspotStatus_def getThrottleStatus_def getSettings_def prog_defs get)
  }
qed

theorem status_getters_witness:
  "fst (getHotspotStatus sample_common (Answers 100 (Inr settings_reply)) empty_world)
     = Return (JStr ''connected'')
   \<and> fst (getThrottleStatus sample_common (Answers 100 (Inr settings_reply)) empty_world)
     = Return (JStr ''ondemand'')
   \<and> fst (getSettings sample_common (Answers 100 (Inr server_error)) empty_world) = Return JUndefined
   \<and> fst (getHotspotStatus sample_common (Answers 100 (Inr server_error)) empty_world)
     = Throw (TypeError ''Cannot read properties of undefined'')
   \<and> fst (getThrottleStatus sample_common (Answers 100 (Inr server_error)) empty_world)
     = Throw (TypeError ''Cannot read properties of undefined'')
   \<and> \<not> (200 \<le> reply_status bad_gateway \<and> reply_status bad_gateway < 300)
   \<and> reply_body bad_gateway = NotJson ''<html>502 Bad Gateway</html>''
   \<and> (\<exists>msg. fst (getSettings sample_common (Answers 100 (Inr bad_gateway)) empty_world)
               = Throw (SyntaxError msg)
          \<and> fst (getHotspotStatus sample_common (Answers 100 (Inr bad_gateway)) empty_world)
               = Throw (SyntaxError msg)
          \<and> fst (getThrottleStatus sample_common (Answers 100 (Inr bad_gateway)) empty_world)
               = Throw (SyntaxError msg))
   \<and> (\<exists>msg. fst (getSettings sample_common
                 (Answers 100 (Inr \<lparr>reply_status = 404, reply_body = NoBody\<rparr>)) empty_world)
               = Throw (SyntaxError msg))"
  using status_getters [where t = 100 and r = settings_reply and c = sample_common and w = empty_world
      and kvs = "[(''hotspot_status'', JStr ''connected''), (''throttle_status'', JStr ''ondemand'')]"]
    status_getters [where t = 100 and r = server_error and c = sample_common and w = empty_world]
    status_getters [where t = 100 and r = bad_gateway and c = sample_common and w = empty_world]
    status_getters [where t = 100 and r = "\<lparr>reply_status = 404, reply_body = NoBody\<rparr>"
      and c = sample_common and w = empty_world]
  by (auto simp: settings_reply_def server_error_def bad_gateway_def handed_back_def readable_def)

text \<open>
  C10, as stated, fails: on a 502 with an HTML body \<open>getSettings\<close> does not return
  \<^verbatim>\<open>undefined\<close>, it throws the \<^verbatim>\<open>SyntaxError\<close> of the executor, and so do
  \<open>getHotspotStatus\<close> and \<open>getThrottleStatus\<close>.
\<close>

theorem status_getters_counterexample:
  "fst (getSettings sample_common (Answers 100 (Inr bad_gateway)) empty_world)
     = Throw (SyntaxError ''Unexpected token'')
   \<and> fst (getHotspotStatus sample_common (Answers 100 (Inr bad_gateway)) empty_world)
     = Throw (SyntaxError ''Unexpected token'')
   \<and> fst (getThrottleStatus sample_common (Answers 100 (Inr bad_gateway)) empty_world)
     = Throw (SyntaxError ''Unexpected token'')"
proof -
  have "apiGet (Answers 100 (Inr bad_gateway)) url w
      = (Throw (SyntaxError ''Unexpected token''),
         logged (LogError (SyntaxError ''Unexpected token''))
           (sent (Answers 100 (Inr bad_gateway)) url ''GET'' JUndefined 60000 w))" for url w
    using apiCall_error_not_json [of 100 None bad_gateway "''<html>502 Bad Gateway</html>''" url "''GET''" JUndefined w]
    by (simp add: apiGet_def timeout_of_None bad_gateway_def)
  then show ?thesis
    by (simp add: getHotspotStatus_def getThrottleStatus_def getSettings_def prog_defs)
qed



text \<open>
  C8. Every operation function is to send its request through \<open>apiCall\<close>.
  \<open>refreshChannel\<close> hands its request to \<^verbatim>\<open>fetch\<close> itself: with no answer it stays
  pending for ever and no timer is set; on the write-protected answer (403, code 17) it
  returns with no notification; an answer after 70 seconds is still awaited.
\<close>

theorem refreshChannel_unguarded:
  "refreshChannel sample_common NoAnswer (JNum 1) empty_world
     = (Pending,
        empty_world\<lparr>fetched := [(''/api/videos/channels/refresh/1'',
                                  \<lparr>req_method = ''POST'', req_body = None\<rparr>)]\<rparr>)
   \<and> refreshChannel sample_common (Answers 100 (Inr wrol_reply)) (JNum 1) empty_world
     = (Return JUndefined,
        empty_world\<lparr>fetched := [(''/api/videos/channels/refresh/1'',
                                  \<lparr>req_method = ''POST'', req_body = None\<rparr>)]\<rparr>)
   \<and> fst (refreshChannel sample_common (Answers 70000 (Inr ok_reply)) (JNum 1) empty_world)
     = Return JUndefined"
  by (simp add: refreshChannel_def fetch_js_def await_promise_def prog_defs sample_common_def
      empty_world_def show_int_def wrol_reply_def ok_reply_def Let_def)

section \<open>The operation functions under the guard\<close>

text \<open>
  Every other exported function that sends a request is under the guard, whatever the
  network does, for the arguments with which it reaches its request: \<open>postDownload\<close> with
  a downloader, \<open>deleteVideos\<close>, \<open>deleteItems\<close> and \<open>deleteArchives\<close> with an array,
  \<open>updateInventory\<close>, \<open>addTag\<close> and \<open>removeTag\<close> with a value other than \<open>null\<close> and
  \<open>undefined\<close>.
\<close>

lemma quiet_return: "quiet (return x)"
  by (simp add: quiet_def return_def)

lemma quiet_throw: "quiet (throw e)"
  by (simp add: quiet_def throw_def)

lemma quiet_toast: "t \<noteq> wrol_toast \<Longrightarrow> quiet (toast_js t)"
  by (simp add: quiet_def toast_js_def)

lemma quiet_console_log: "quiet (console_log l)"
  by (simp add: quiet_def console_log_def)

lemma quiet_json: "quiet (json r)"
  by (simp add: quiet_def json_def return_def throw_def split: body.splits)

lemma quiet_get_prop: "quiet (get_prop v k)"
  by (cases v) (simp_all add: quiet_def return_def throw_def)

lemma quiet_if: "(b \<Longrightarrow> quiet m) \<Longrightarrow> (\<not> b \<Longrightarrow> quiet n) \<Longrightarrow> quiet (if b then m else n)"
  by simp

lemma quiet_case_prod: "(\<And>a b. quiet (f a b)) \<Longrightarrow> quiet (case p of (a, b) \<Rightarrow> f a b)"
  by (cases p) simp

lemma quiet_await:
  assumes "quiet m" "\<And>x. quiet (f x)"
  shows "quiet (await m f)"
  unfolding quiet_def
proof (intro allI)
  fix w
  obtain res w1 where m: "m w = (res, w1)" by (cases "m w")
  from assms(1) m obtain ts1 where 1: "res \<noteq> Pending" "fetched w1 = fetched w" "delays w1 = delays w"
    "timers w1 = timers w" "next_timer w1 = next_timer w" "toasts w1 = toasts w @ ts1"
    "wrol_toast \<notin> set ts1"
    unfolding quiet_def by (metis fst_conv snd_conv)
  show "fst (await m f w) \<noteq> Pending
      \<and> fetched (snd (await m f w)) = fetched w \<and> delays (snd (await m f w)) = delays w
      \<and> timers (snd (await m f w)) = timers w \<and> next_timer (snd (await m f w)) = next_timer w
      \<and> (\<exists>ts. toasts (snd (await m f w)) = toasts w @ ts \<and> wrol_toast \<notin> set ts)"
  proof (cases res)
    case (Return x)
    from assms(2) [of x] obtain ts2 where 2: "fst (f x w1) \<noteq> Pending" "fetched (snd (f x w1)) = fetched w1"
      "delays (snd (f x w1)) = delays w1" "timers (snd (f x w1)) = timers w1"
      "next_timer (snd (f x w1)) = next_timer w1" "toasts (snd (f x w1)) = toasts w1 @ ts2"
      "wrol_toast \<notin> set ts2"
      unfolding quiet_def by blast
    have "toasts (snd (f x w1)) = toasts w @ (ts1 @ ts2) \<and> wrol_toast \<notin> set (ts1 @ ts2)"
      using 1 2 by simp
    then show ?thesis using m Return 1 2 by (auto simp: await_def)
  next
    case (Throw e)
    then show ?thesis using m 1 by (auto simp: await_def)
  next
    case Pending
    then show ?thesis using 1 by simp
  qed
qed

lemma quiet_try_catch:
  assumes "quiet m" "\<And>e. quiet (h e)"
  shows "quiet (try_catch m h)"
  unfolding quiet_def
proof (intro allI)
  fix w
  obtain res w1 where m: "m w = (res, w1)" by (cases "m w")
  from assms(1) m obtain ts1 where 1: "res \<noteq> Pending" "fetched w1 = fetched w" "delays w1 = delays w"
    "timers w1 = timers w" "next_timer w1 = next_timer w" "toasts w1 = toasts w @ ts1"
    "wrol_toast \<notin> set ts1"
    unfolding quiet_def by (metis fst_conv snd_conv)
  show "fst (try_catch m h w) \<noteq> Pending
      \<and> fetched (snd (try_catch m h w)) = fetched w \<and> delays (snd (try_catch m h w)) = delays w
      \<and> timers (snd (try_catch m h w)) = timers w \<and> next_timer (snd (try_catch m h w)) = next_timer w
      \<and> (\<exists>ts. toasts (snd (try_catch m h w)) = toasts w @ ts \<and> wrol_toast \<notin> set ts)"
  proof (cases res)
    case (Throw e)
    from assms(2) [of e] obtain ts2 where 2: "fst (h e w1) \<noteq> Pending" "fetched (snd (h e w1)) = fetched w1"
      "delays (snd (h e w1)) = delays w1" "timers (snd (h e w1)) = timers w1"
      "next_timer (snd (h e w1)) = next_timer w1" "toasts (snd (h e w1)) = toasts w1 @ ts2"
      "wrol_toast \<notin> set ts2"
      unfolding quiet_def by blast
    have "toasts (snd (h e w1)) = toasts w @ (ts1 @ ts2) \<and> wrol_toast \<notin> set (ts1 @ ts2)"
      using 1 2 by simp
    then show ?thesis using m Throw 1 2 by (auto simp: try_catch_def)
  next
    case (Return x)
    then show ?thesis using m 1 by (auto simp: try_catch_def)
  next
    case Pending
    then show ?thesis using 1 by simp
  qed
qed

lemma count_list_absent: "x \<notin> set xs \<Longrightarrow> count_list xs x = 0"
  by (induction xs) auto

lemma guarded_apiCall: "guarded net (apiCall net url meth b None)"
  unfolding guarded_def
proof (intro allI)
  fix w
  show "fst (apiCall net url meth b None w) \<noteq> Pending
      \<and> length (fetched (snd (apiCall net url meth b None w))) = Suc (length (fetched w))
      \<and> delays (snd (apiCall net url meth b None w)) = delays w @ [60000]
      \<and> timers (snd (apiCall net url meth b None w)) = removeAll (next_timer w) (timers w)
      \<and> next_timer (snd (apiCall net url meth b None w)) = Suc (next_timer w)
      \<and> (\<exists>ts. toasts (snd (apiCall net url meth b None w)) = toasts w @ ts
             \<and> count_list ts wrol_toast = (if intercepts net then 1 else 0))"
  proof (cases "\<exists>t r. net = Answers t (Inr r) \<and> t \<le> 60000 \<and> handed_back r")
    case True
    then obtain t r where net: "net = Answers t (Inr r)" "t \<le> 60000" "handed_back r" by blast
    then have "apiCall net url meth b None w
        = (Return (Response r), intercepted r (sent net url meth b 60000 w))"
      using apiCall_handed_back [of t None r url meth b w] by (simp add: timeout_of_None)
    moreover have "intercepts net = write_protected r"
      using net by (simp add: intercepts_def)
    ultimately show ?thesis by (simp add: world_simps)
  next
    case False
    have ni: "\<not> intercepts net"
    proof
      assume "intercepts net"
      then obtain t r where net: "net = Answers t (Inr r)" "t \<le> 60000" "write_protected r"
        by (auto simp: intercepts_def split: fetch_behaviour.splits sum.splits)
      then have "handed_back r"
        by (auto simp: write_protected_def handed_back_def readable_def split: body.splits jsval.splits)
      with net False show False by blast
    qed
    have "\<exists>e. apiCall net url meth b None w
        = (Throw e, logged (LogError e) (sent net url meth b 60000 w))"
      using False apiCall_throws [of net None url meth b w] by (simp add: timeout_of_None)
    then show ?thesis using ni by (auto simp: world_simps)
  qed
qed

lemma guarded_await:
  assumes "guarded net m" "\<And>x. quiet (f x)"
  shows "guarded net (await m f)"
  unfolding guarded_def
proof (intro allI)
  fix w
  obtain res w1 where m: "m w = (res, w1)" by (cases "m w")
  from assms(1) m obtain ts1 where 1: "res \<noteq> Pending" "length (fetched w1) = Suc (length (fetched w))"
    "delays w1 = delays w @ [60000]" "timers w1 = removeAll (next_timer w) (timers w)"
    "next_timer w1 = Suc (next_timer w)" "toasts w1 = toasts w @ ts1"
    "count_list ts1 wrol_toast = (if intercepts net then 1 else 0)"
    unfolding guarded_def by (metis fst_conv snd_conv)
  show "fst (await m f w) \<noteq> Pending
      \<and> length (fetched (snd (await m f w))) = Suc (length (fetched w))
      \<and> delays (snd (await m f w)) = delays w @ [60000]
      \<and> timers (snd (await m f w)) = removeAll (next_timer w) (timers w)
      \<and> next_timer (snd (await m f w)) = Suc (next_timer w)
      \<and> (\<exists>ts. toasts (snd (await m f w)) = toasts w @ ts
             \<and> count_list ts wrol_toast = (if intercepts net then 1 else 0))"
  proof (cases res)
    case (Return x)
    from assms(2) [of x] obtain ts2 where 2: "fst (f x w1) \<noteq> Pending" "fetched (snd (f x w1)) = fetched w1"
      "delays (snd (f x w1)) = delays w1" "timers (snd (f x w1)) = timers w1"
      "next_timer (snd (f x w1)) = next_timer w1" "toasts (snd (f x w1)) = toasts w1 @ ts2"
      "wrol_toast \<notin> set ts2"
      unfolding quiet_def by blast
    have "toasts (snd (f x w1)) = toasts w @ (ts1 @ ts2)
        \<and> count_list (ts1 @ ts2) wrol_toast = (if intercepts net then 1 else 0)"
      using 1 2 by (simp add: count_list_absent)
    then show ?thesis using m Return 1 2 by (auto simp: await_def)
  next
    case (Throw e)
    then show ?thesis using m 1 by (auto simp: await_def)
  next
    case Pending
    then show ?thesis using 1 by simp
  qed
qed

lemma guarded_try_catch:
  assumes "guarded net m" "\<And>e. quiet (h e)"
  shows "guarded net (try_catch m h)"
  unfolding guarded_def
proof (intro allI)
  fix w
  obtain res w1 where m: "m w = (res, w1)" by (cases "m w")
  from assms(1) m obtain ts1 where 1: "res \<noteq> Pending" "length (fetched w1) = Suc (length (fetched w))"
    "delays w1 = delays w @ [60000]" "timers w1 = removeAll (next_timer w) (timers w)"
    "next_timer w1 = Suc (next_timer w)" "toasts w1 = toasts w @ ts1"
    "count_list ts1 wrol_toast = (if intercepts net then 1 else 0)"
    unfolding guarded_def by (metis fst_conv snd_conv)
  show "fst (try_catch m h w) \<noteq> Pending
      \<and> length (fetched (snd (try_catch m h w))) = Suc (length (fetched w))
      \<and> delays (snd (try_catch m h w)) = delays w @ [60000]
      \<and> timers (snd (try_catch m h w)) = removeAll (next_timer w) (timers w)
      \<and> next_timer (snd (try_catch m h w)) = Suc (next_timer w)
      \<and> (\<exists>ts. toasts (snd (try_catch m h w)) = toasts w @ ts
             \<and> count_list ts wrol_toast = (if intercepts net then 1 else 0))"
  proof (cases res)
    case (Throw e)
    from assms(2) [of e] obtain ts2 where 2: "fst (h e w1) \<noteq> Pending" "fetched (snd (h e w1)) = fetched w1"
      "delays (snd (h e w1)) = delays w1" "timers (snd (h e w1)) = timers w1"
      "next_timer (snd (h e w1)) = next_timer w1" "toasts (snd (h e w1)) = toasts w1 @ ts2"
      "wrol_toast \<notin> set ts2"
      unfolding quiet_def by blast
    have "toasts (snd (h e w1)) = toasts w @ (ts1 @ ts2)
        \<and> count_list (ts1 @ ts2) wrol_toast = (if intercepts net then 1 else 0)"
      using 1 2 by (simp add: count_list_absent)
    then show ?thesis using m Throw 1 2 by (auto simp: try_catch_def)
  next
    case (Return x)
    then show ?thesis using m 1 by (auto simp: try_catch_def)
  next
    case Pending
    then show ?thesis using 1 by simp
  qed
qed

lemma guarded_after_log:
  assumes "guarded net m"
  shows "guarded net (await (console_log l) (\<lambda>_. m))"
  unfolding guarded_def
proof (intro allI)
  fix w
  have "await (console_log l) (\<lambda>_. m) w = m (w\<lparr>console := console w @ [l]\<rparr>)"
    by (simp add: await_def console_log_def)
  then show "fst (await (console_log l) (\<lambda>_. m) w) \<noteq> Pending
      \<and> length (fetched (snd (await (console_log l) (\<lambda>_. m) w))) = Suc (length (fetched w))
      \<and> delays (snd (await (console_log l) (\<lambda>_. m) w)) = delays w @ [60000]
      \<and> timers (snd (await (console_log l) (\<lambda>_. m) w)) = removeAll (next_timer w) (timers w)
      \<and> next_timer (snd (await (console_log l) (\<lambda>_. m) w)) = Suc (next_timer w)
      \<and> (\<exists>ts. toasts (snd (await (console_log l) (\<lambda>_. m) w)) = toasts w @ ts
             \<and> count_list ts wrol_toast = (if intercepts net then 1 else 0))"
    using assms [unfolded guarded_def, THEN spec, of "w\<lparr>console := console w @ [l]\<rparr>"]
    by simp
qed

lemma await_return: "await (return x) f = f x"
  by (simp add: await_def return_def fun_eq_iff)

lemma quiet_case_option:
  "quiet m \<Longrightarrow> (\<And>x. quiet (f x)) \<Longrightarrow> quiet (case v of None \<Rightarrow> m | Some x \<Rightarrow> f x)"
  by (cases v) simp_all

lemmas guard_intros = guarded_after_log guarded_apiCall guarded_await guarded_try_catch
  quiet_await quiet_try_catch quiet_return quiet_throw quiet_toast quiet_console_log quiet_json
  quiet_get_prop quiet_if quiet_case_prod quiet_case_option


lemma operations_guarded:
  "guarded net (updateChannel c net id' channel)"
  "guarded net (createChannel c net channel)"
  "guarded net (deleteChannel c net channelId)"
  "guarded net (getChannels c net)"
  "guarded net (getChannel c net id')"
  "guarded net (searchVideos c net offset limit channelId searchStr order_by tagNames headline)"
  "guarded net (getVideo c net video_id)"
  "guarded net (deleteVideos c net (JArr videoIds))"
  "guarded net (getDirectories c net search_str)"
  "guarded net (getStatus c net)"
  "guarded net (getSettings c net)"
  "guarded net (saveSettings c net settings)"
  "guarded net (getDownloads c net)"
  "guarded net (validateRegex c net regex)"
  "guarded net (getVideosStatistics c net)"
  "guarded net (downloadChannel c net channelId)"
  "guarded net (encryptOTP c net otp plaintext)"
  "guarded net (decryptOTP c net otp ciphertext)"
  "guarded net (getCategories c net)"
  "guarded net (getBrands c net)"
  "guarded net (getInventories c net)"
  "guarded net (getInventory c net inventoryId)"
  "guarded net (saveInventory c net inventory)"
  "inventory \<noteq> JUndefined \<and> inventory \<noteq> JNull \<Longrightarrow>
   guarded net (updateInventory c net inventoryId inventory)"
  "guarded net (deleteInventory c net inventoryId)"
  "guarded net (getItems c net inventoryId)"
  "guarded net (saveItem c net inventoryId item)"
  "guarded net (updateItem c net itemId item)"
  "guarded net (deleteItems c net (JArr itemIds))"
  "guarded net (deleteArchives c net (JArr archiveIds))"
  "guarded net (searchArchives c net offset limit domain searchStr order_by tagNames headline)"
  "guarded net (fetchDomains c net)"
  "guarded net (getArchive c net archiveId)"
  "truthy downloader \<Longrightarrow>
   guarded net (postDownload c net urls downloader frequency sub_downloader excludedURLs destination tagNames)"
  "guarded net (killDownload c net download_id)"
  "guarded net (killDownloads c net)"
  "guarded net (startDownloads c net)"
  "guarded net (getDownloaders c net)"
  "guarded net (deleteDownload c net downloadId)"
  "guarded net (filesSearch c net offset limit searchStr mimetypes model tagNames headline)"
  "guarded net (refreshFiles c net)"
  "guarded net (refreshDirectoryFiles c net directory)"
  "guarded net (getFiles c net directories)"
  "guarded net (deleteFile c net file)"
  "guarded net (fetchFilesProgress c net)"
  "guarded net (getHotspotStatus c net)"
  "guarded net (setHotspot c net on)"
  "guarded net (getThrottleStatus c net)"
  "guarded net (setThrottle c net on)"
  "guarded net (getMapImportStatus c net)"
  "guarded net (importMapFiles c net paths)"
  "guarded net (clearCompletedDownloads c net)"
  "guarded net (clearFailedDownloads c net)"
  "guarded net (getStatistics c net)"
  "guarded net (getEvents c net after)"
  "guarded net (getTags c net)"
  "fileGroup \<noteq> JUndefined \<and> fileGroup \<noteq> JNull \<Longrightarrow>
   guarded net (addTag c net fileGroup name)"
  "fileGroup \<noteq> JUndefined \<and> fileGroup \<noteq> JNull \<Longrightarrow>
   guarded net (removeTag c net fileGroup name)"
  "guarded net (saveTag c net name color id')"
  "guarded net (deleteTag c net id' (JStr tag))"
  "guarded net (fetchFile c net path)"
  "guarded net (sendNotification c net message url)"
  "guarded net (searchDirectories c net name)"
  unfolding op_defs wrapper_defs Let_def
  by (auto intro!: guard_intros simp: op_args await_return error_toast_def wrol_toast_def)
end
